theory Spec2Isabelle
  imports Complex_Main "HOL-Library.Multiset"
begin

section \<open>Chat store: the Chat model\<close>

text \<open>
  Source: the model that the routes import as \<open>models/Chat.js\<close>, in
  \<open>src/backend/src/middleware/auth.js\<close>, lines 27 to 211.
\<close>

text \<open>
  Object ids are compared through \<open>toString()\<close> in the source, so user and project
  references are strings. Document ids generated by the driver are natural numbers.
  Dates are milliseconds since the epoch. Every read of the clock (\<open>new Date()\<close>,
  a schema default \<open>Date.now\<close>) is an explicit argument of the function that reads it.
\<close>

type_synonym user_id = string
type_synonym project_id = string
type_synonym timestamp = nat

text \<open>
  Text that a user types (a message, a title, a link, the percentage field of a form)
  reaches the server as a JavaScript string, a sequence of UTF-16 code units. \<open>js\<close>
  writes such a string with the characters of a literal. Identifiers, file metadata and
  the messages of the server itself are plain strings.
\<close>

type_synonym code_unit = nat
type_synonym js_string = "code_unit list"

definition js :: "string \<Rightarrow> js_string" where
  "js s = map of_char s"

datatype error = ValidationError | TypeError

datatype attachment_type = File | Image | Code | Module

record module_data =
  md_title :: js_string
  md_description :: "js_string option"
  md_completionPercentage :: int
  md_githubLink :: "js_string option"

record attachment =
  att_type :: attachment_type
  att_filename :: "string option"
  att_path :: "string option"
  att_mimetype :: "string option"
  att_size :: "nat option"
  att_language :: "string option"
  att_preview :: "string option"
  att_moduleData :: "module_data option"

text \<open>
  A reference to a user, as a document holds it in memory: the id; or, after
  \<open>populate\<close>, the user document with the selected fields; or \<open>null\<close> when
  \<open>populate\<close> found no user for the id (the document remembers the id and stores it
  again on save).
\<close>

record user_profile =
  usr_name :: string
  usr_username :: string

datatype user_ref = Ref user_id | Populated user_id user_profile | Missing user_id

record read_receipt =
  rr_user :: user_ref
  rr_readAt :: timestamp

record message =
  msg_id :: nat
  sender :: user_id
  content :: js_string
  githubLink :: "js_string option"
  attachments :: "attachment list"
  readBy :: "read_receipt list"
  createdAt :: timestamp

record last_message =
  lm_content :: js_string
  lm_sender :: user_id
  lm_createdAt :: timestamp
  lm_hasAttachments :: "bool option"
  lm_githubLink :: "js_string option"

datatype chat_type = Direct | Project

record chat =
  chat_id :: nat
  ctype :: chat_type
  participants :: "user_id list"
  project :: "project_id option"
  messages :: "message list"
  lastMessage :: "last_message option"

text \<open>
  The white space of the language, which \<open>String.prototype.trim\<close> and \<open>parseInt\<close>
  strip: the code units of WhiteSpace (tab, vertical tab, form feed, space, no-break
  space, the byte order mark and the space separators of Unicode) and of LineTerminator
  (line feed, carriage return, line and paragraph separator).
\<close>

definition is_space :: "code_unit \<Rightarrow> bool" where
  "is_space u =
     (u \<in> set [0x09, 0x0A, 0x0B, 0x0C, 0x0D, 0x20, 0xA0, 0x1680, 0x2028, 0x2029, 0x202F,
                0x205F, 0x3000, 0xFEFF]
      \<or> (0x2000 \<le> u \<and> u \<le> 0x200A))"

definition trim :: "js_string \<Rightarrow> js_string" where
  "trim s = rev (dropWhile is_space (rev (dropWhile is_space s)))"

text \<open>
  \<open>x || null\<close> on an optional string, and the truth value of one: the empty string
  is falsy.
\<close>

definition or_null :: "'a list option \<Rightarrow> 'a list option" where
  "or_null g = (case g of None \<Rightarrow> None | Some s \<Rightarrow> if s = [] then None else Some s)"

definition truthy :: "'a list option \<Rightarrow> bool" where
  "truthy x = (case x of None \<Rightarrow> False | Some s \<Rightarrow> s \<noteq> [])"

text \<open>
  \<open>save()\<close> runs the schema's validators over the whole document and rejects with a
  validation error when one fails. Of the validators of chatSchema the model keeps those
  on the fields it has: \<open>content\<close> of every message is a required string (the empty
  string does not satisfy \<open>required\<close>), and \<open>project\<close> is required when the type is
  \<open>project\<close>. A rejected save leaves the persisted chat as it was.
\<close>

definition message_schema_ok :: "message \<Rightarrow> bool" where
  "message_schema_ok m = (content m \<noteq> [])"

definition chat_schema_ok :: "chat \<Rightarrow> bool" where
  "chat_schema_ok c =
     ((ctype c = Project \<longrightarrow> project c \<noteq> None) \<and> list_all message_schema_ok (messages c))"

definition save :: "chat \<Rightarrow> error + chat" where
  "save c = (if chat_schema_ok c then Inr c else Inl ValidationError)"

text \<open>
  \<open>chatSchema.methods.addMessage\<close>. The pushed object is cast to a message subdocument:
  \<open>mid\<close> is its generated id, \<open>t_created\<close> and \<open>t_read\<close> are the clock readings of
  the defaults of \<open>createdAt\<close> and \<open>readBy.readAt\<close>; \<open>t_last\<close> is the reading of the
  \<open>new Date()\<close> in the \<open>lastMessage\<close> literal, taken afterwards. The \<open>githubLink\<close> of
  a message is declared with \<open>trim: true\<close>.
\<close>

definition addMessage ::
  "nat \<Rightarrow> timestamp \<Rightarrow> timestamp \<Rightarrow> timestamp \<Rightarrow>
   user_id \<Rightarrow> js_string \<Rightarrow> attachment list \<Rightarrow> js_string option \<Rightarrow> chat \<Rightarrow>
   error + (chat \<times> message)" where
  "addMessage mid t_created t_read t_last senderId cont atts gl c =
     (let msg = \<lparr> msg_id = mid, sender = senderId, content = cont,
                  githubLink = map_option trim (or_null gl), attachments = atts,
                  readBy = [\<lparr> rr_user = Ref senderId, rr_readAt = t_read \<rparr>],
                  createdAt = t_created \<rparr>;
          c1 = c\<lparr> messages := messages c @ [msg] \<rparr>;
          c2 = c1\<lparr> lastMessage := Some \<lparr> lm_content = cont, lm_sender = senderId,
                                         lm_createdAt = t_last,
                                         lm_hasAttachments = Some (length atts > 0),
                                         lm_githubLink = or_null gl \<rparr> \<rparr>
      in case save c2 of
           Inl e \<Rightarrow> Inl e
         | Inr c3 \<Rightarrow> Inr (c3, last (messages c3)))"

text \<open>
  \<open>toString()\<close> of a reference. An id renders as itself. A populated reference is a
  document, and \<open>Document.prototype.toString\<close> renders the inspected object, a text in
  braces that lists the fields; its exact layout is that of \<open>util.inspect\<close>, and
  \<open>render_user\<close> stands for it. \<open>null.toString()\<close> throws a TypeError.
\<close>

definition render_user :: "user_id \<Rightarrow> user_profile \<Rightarrow> string" where
  "render_user uid prof =
     ''{ _id: '' @ uid @ '', name: '' @ usr_name prof @ '', username: '' @ usr_username prof @ '' }''"

definition ref_toString :: "user_ref \<Rightarrow> error + string" where
  "ref_toString r =
     (case r of
        Ref uid \<Rightarrow> Inr uid
      | Populated uid prof \<Rightarrow> Inr (render_user uid prof)
      | Missing uid \<Rightarrow> Inl TypeError)"

definition ref_id :: "user_ref \<Rightarrow> user_id" where
  "ref_id r = (case r of Ref uid \<Rightarrow> uid | Populated uid prof \<Rightarrow> uid | Missing uid \<Rightarrow> uid)"

text \<open>
  \<open>chatSchema.methods.markAsRead\<close>.
  \<open>readBy.some(read => read.user.toString() === userId.toString())\<close> goes through the
  receipts from the first and stops at the first that matches; a \<open>toString()\<close> that
  throws ends the call.
\<close>

fun some_receipt_of :: "user_id \<Rightarrow> read_receipt list \<Rightarrow> error + bool" where
  "some_receipt_of userId [] = Inr False"
| "some_receipt_of userId (read # rest) =
     (case ref_toString (rr_user read) of
        Inl e \<Rightarrow> Inl e
      | Inr s \<Rightarrow> if s = userId then Inr True else some_receipt_of userId rest)"

definition is_read_by :: "user_id \<Rightarrow> message \<Rightarrow> error + bool" where
  "is_read_by userId msg = some_receipt_of userId (readBy msg)"

text \<open>
  The filter runs over all messages before anything is pushed. The array it returns
  holds the message objects of \<open>this.messages\<close> themselves, so the model keeps, for
  every message in order, whether the filter selected it.
\<close>

fun unread_flags :: "user_id \<Rightarrow> message list \<Rightarrow> error + bool list" where
  "unread_flags userId [] = Inr []"
| "unread_flags userId (msg # msgs) =
     (case is_read_by userId msg of
        Inl e \<Rightarrow> Inl e
      | Inr r \<Rightarrow> (case unread_flags userId msgs of
                    Inl e \<Rightarrow> Inl e
                  | Inr flags \<Rightarrow> Inr ((\<not> r) # flags)))"

text \<open>
  The \<open>forEach\<close> pushes \<open>{ user: userId }\<close> onto every selected message. Each pushed
  receipt takes the default \<open>Date.now\<close> of \<open>readAt\<close> for itself: \<open>clock k\<close> is the
  reading of the receipt pushed after \<open>k\<close> others in the same call.
\<close>

fun push_receipts ::
  "(nat \<Rightarrow> timestamp) \<Rightarrow> nat \<Rightarrow> user_id \<Rightarrow> bool list \<Rightarrow> message list \<Rightarrow> message list" where
  "push_receipts clock k userId (True # flags) (msg # msgs) =
     msg\<lparr> readBy := readBy msg @ [\<lparr> rr_user = Ref userId, rr_readAt = clock k \<rparr>] \<rparr>
       # push_receipts clock (Suc k) userId flags msgs"
| "push_receipts clock k userId (False # flags) (msg # msgs) =
     msg # push_receipts clock k userId flags msgs"
| "push_receipts clock k userId [] msgs = msgs"
| "push_receipts clock k userId flags [] = []"

text \<open>The chat is saved only when something was unread; the count is returned.\<close>

definition markAsRead :: "(nat \<Rightarrow> timestamp) \<Rightarrow> user_id \<Rightarrow> chat \<Rightarrow> error + (chat \<times> nat)" where
  "markAsRead clock userId c =
     (case unread_flags userId (messages c) of
        Inl e \<Rightarrow> Inl e
      | Inr flags \<Rightarrow>
          (let unread = length (filter (\<lambda>f. f) flags);
               c1 = c\<lparr> messages := push_receipts clock 0 userId flags (messages c) \<rparr>
           in if unread > 0
              then (case save c1 of Inl e \<Rightarrow> Inl e | Inr c2 \<Rightarrow> Inr (c2, unread))
              else Inr (c1, unread)))"

text \<open>
  \<open>populate('messages.readBy.user', 'name username')\<close> replaces every id of a receipt by
  the user document found for it in the directory of users, or by \<open>null\<close>. On save a
  populated reference is stored as its id again.
\<close>

definition populate_ref :: "(user_id \<Rightarrow> user_profile option) \<Rightarrow> user_ref \<Rightarrow> user_ref" where
  "populate_ref users r =
     (case r of
        Ref uid \<Rightarrow> (case users uid of Some prof \<Rightarrow> Populated uid prof | None \<Rightarrow> Missing uid)
      | Populated uid prof \<Rightarrow> Populated uid prof
      | Missing uid \<Rightarrow> Missing uid)"

definition map_receipts :: "(user_ref \<Rightarrow> user_ref) \<Rightarrow> chat \<Rightarrow> chat" where
  "map_receipts f c =
     c\<lparr> messages :=
          map (\<lambda>msg. msg\<lparr> readBy := map (\<lambda>read. read\<lparr> rr_user := f (rr_user read) \<rparr>) (readBy msg) \<rparr>)
            (messages c) \<rparr>"

definition populate_readBy :: "(user_id \<Rightarrow> user_profile option) \<Rightarrow> chat \<Rightarrow> chat" where
  "populate_readBy users c = map_receipts (populate_ref users) c"

definition depopulate :: "chat \<Rightarrow> chat" where
  "depopulate c = map_receipts (\<lambda>r. Ref (ref_id r)) c"

text \<open>A chat as it is stored, every reference of a receipt an id.\<close>

definition is_Ref :: "user_ref \<Rightarrow> bool" where
  "is_Ref r = (case r of Ref uid \<Rightarrow> True | Populated uid prof \<Rightarrow> False | Missing uid \<Rightarrow> False)"

definition unpopulated :: "chat \<Rightarrow> bool" where
  "unpopulated c = list_all (\<lambda>msg. list_all (\<lambda>read. is_Ref (rr_user read)) (readBy msg)) (messages c)"

definition readers :: "message \<Rightarrow> user_id list" where
  "readers msg = map (\<lambda>read. ref_id (rr_user read)) (readBy msg)"

section \<open>The chat collection\<close>

text \<open>
  The collection holds the persisted chats in their natural order; \<open>next_id\<close> stands
  for the driver's generator of fresh document ids.
\<close>

record store =
  chats :: "chat list"
  next_id :: nat

definition findById :: "nat \<Rightarrow> store \<Rightarrow> chat option" where
  "findById chatId s = find (\<lambda>c. chat_id c = chatId) (chats s)"

definition persist :: "chat \<Rightarrow> store \<Rightarrow> store" where
  "persist c s = s\<lparr> chats := map (\<lambda>d. if chat_id d = chat_id c then c else d) (chats s) \<rparr>"

text \<open>
  The query of \<open>getOrCreateDirectChat\<close>:
  \<open>{ type: 'direct', participants: { $all: [user1Id, user2Id], $size: 2 } }\<close>.
\<close>

definition direct_query :: "user_id \<Rightarrow> user_id \<Rightarrow> chat \<Rightarrow> bool" where
  "direct_query user1Id user2Id c =
     (ctype c = Direct \<and> user1Id \<in> set (participants c) \<and> user2Id \<in> set (participants c)
      \<and> length (participants c) = 2)"

definition findOne_direct :: "user_id \<Rightarrow> user_id \<Rightarrow> store \<Rightarrow> chat option" where
  "findOne_direct user1Id user2Id s = find (direct_query user1Id user2Id) (chats s)"

definition create_direct :: "user_id \<Rightarrow> user_id \<Rightarrow> store \<Rightarrow> chat \<times> store" where
  "create_direct user1Id user2Id s =
     (let c = \<lparr> chat_id = next_id s, ctype = Direct, participants = [user1Id, user2Id],
                project = None, messages = [], lastMessage = None \<rparr>
      in (c, s\<lparr> chats := chats s @ [c], next_id := Suc (next_id s) \<rparr>))"

text \<open>\<open>chatSchema.statics.getOrCreateDirectChat\<close>, run without interruption.\<close>

definition getOrCreateDirectChat :: "user_id \<Rightarrow> user_id \<Rightarrow> store \<Rightarrow> chat \<times> store" where
  "getOrCreateDirectChat user1Id user2Id s =
     (case findOne_direct user1Id user2Id s of
        Some c \<Rightarrow> (c, s)
      | None \<Rightarrow> create_direct user1Id user2Id s)"

text \<open>\<open>n\<close> calls for the same pair, each finished before the next starts.\<close>

fun calls_in_sequence :: "nat \<Rightarrow> user_id \<Rightarrow> user_id \<Rightarrow> store \<Rightarrow> nat list \<times> store" where
  "calls_in_sequence 0 user1Id user2Id s = ([], s)"
| "calls_in_sequence (Suc n) user1Id user2Id s =
     (let (c, s1) = getOrCreateDirectChat user1Id user2Id s;
          (ids, s2) = calls_in_sequence n user1Id user2Id s1
      in (chat_id c # ids, s2))"

text \<open>
  The function is \<open>async\<close> and awaits twice: \<open>findOne\<close>, then \<open>create\<close>. The server is
  single-threaded, so each of the two database operations is atomic, and another handler
  may run between them. A call in flight is before its \<open>findOne\<close>, or between a
  \<open>findOne\<close> that found nothing and its \<open>create\<close>, or has returned a chat id.
  A schedule names, step by step, the call that runs next.
\<close>

datatype call = Pending user_id user_id | Creating user_id user_id | Returned nat

fun step_call :: "call \<Rightarrow> store \<Rightarrow> call \<times> store" where
  "step_call (Pending user1Id user2Id) s =
     (case findOne_direct user1Id user2Id s of
        Some c \<Rightarrow> (Returned (chat_id c), s)
      | None \<Rightarrow> (Creating user1Id user2Id, s))"
| "step_call (Creating user1Id user2Id) s =
     (let (c, s') = create_direct user1Id user2Id s in (Returned (chat_id c), s'))"
| "step_call (Returned i) s = (Returned i, s)"

fun run_schedule :: "nat list \<Rightarrow> call list \<times> store \<Rightarrow> call list \<times> store" where
  "run_schedule [] st = st"
| "run_schedule (i # sched) (cs, s) =
     (if i < length cs
      then (let (c', s') = step_call (cs ! i) s in run_schedule sched (cs[i := c'], s'))
      else run_schedule sched (cs, s))"

section \<open>The Project model\<close>

text \<open>Source: \<open>src/unnamed/part_003\<close>, lines 1 to 331 (\<open>models/Project.js\<close>).\<close>

record stored_file =
  sf_filename :: string
  sf_path :: string
  sf_mimetype :: string
  sf_size :: nat

record submission =
  sub_title :: js_string
  sub_description :: js_string
  sub_githubLink :: "js_string option"
  sub_files :: "stored_file list"
  sub_completionPercentage :: int
  sub_submittedBy :: user_id
  sub_submittedAt :: timestamp

record project =
  proj_id :: project_id
  proj_name :: js_string
  proj_description :: js_string
  proj_owner :: user_id
  proj_collaborators :: "user_id list"
  proj_deadline :: timestamp
  moduleSubmissions :: "submission list"
  completionPercentage :: int
  lastUpdated :: timestamp

record progress_data =
  pd_completionPercentage :: int
  pd_lastUpdated :: timestamp

text \<open>
  \<open>Math.round\<close> of a quotient of integers, computed exactly: the nearest integer, a
  half rounded towards plus infinity. (The source divides in double precision; for sums
  and counts below \<open>2^53\<close> the rounded quotient is the same.)
\<close>

definition Math_round :: "rat \<Rightarrow> int" where
  "Math_round x = \<lfloor>x + 1 / 2\<rfloor>"

text \<open>\<open>n || 0\<close> on a number.\<close>

definition or_zero :: "int \<Rightarrow> int" where
  "or_zero n = (if n = 0 then 0 else n)"

text \<open>The \<open>reduce\<close> of \<open>progressData\<close>, \<open>updateProgress\<close> and the module route.\<close>

definition totalPercentage :: "submission list \<Rightarrow> int" where
  "totalPercentage subs = foldl (\<lambda>sum sub. sum + or_zero (sub_completionPercentage sub)) 0 subs"

text \<open>
  \<open>.sort((a, b) => new Date(b.submittedAt) - new Date(a.submittedAt))\<close>: the stable sort
  of the language, latest submission first.
\<close>

definition sort_latest_first :: "submission list \<Rightarrow> submission list" where
  "sort_latest_first subs = sort_key (\<lambda>sub. - int (sub_submittedAt sub)) subs"

text \<open>
  The virtual \<open>progressData\<close>; \<open>now\<close> is the \<open>new Date()\<close> of the branch without
  submissions.
\<close>

definition progressData :: "timestamp \<Rightarrow> project \<Rightarrow> progress_data" where
  "progressData now p =
     (if moduleSubmissions p = []
      then \<lparr> pd_completionPercentage = 0, pd_lastUpdated = now \<rparr>
      else (let total = totalPercentage (moduleSubmissions p);
                lastSubmission = hd (sort_latest_first (moduleSubmissions p))
            in \<lparr> pd_completionPercentage =
                    Math_round (of_int total / of_int (int (length (moduleSubmissions p)))),
                  pd_lastUpdated = sub_submittedAt lastSubmission \<rparr>))"

text \<open>
  The validators of projectSchema on the fields of the model: \<open>name\<close>,
  \<open>description\<close> and the title of a submission are required strings, and both
  completion percentages have \<open>min: 0\<close> and \<open>max: 100\<close>. \<open>save()\<close> runs them; \<open>findByIdAndUpdate\<close> does not (update validators are
  off unless \<open>runValidators\<close> is passed, and the source passes no options).
\<close>

definition submission_schema_ok :: "submission \<Rightarrow> bool" where
  "submission_schema_ok sub =
     (sub_title sub \<noteq> [] \<and> 0 \<le> sub_completionPercentage sub \<and> sub_completionPercentage sub \<le> 100)"

definition project_schema_ok :: "project \<Rightarrow> bool" where
  "project_schema_ok p =
     (proj_name p \<noteq> [] \<and> proj_description p \<noteq> []
      \<and> 0 \<le> completionPercentage p \<and> completionPercentage p \<le> 100
      \<and> list_all submission_schema_ok (moduleSubmissions p))"

definition save_project :: "project \<Rightarrow> error + project" where
  "save_project p = (if project_schema_ok p then Inr p else Inl ValidationError)"

section \<open>The Message model\<close>

text \<open>Source: \<open>src/unnamed/part_002\<close> (\<open>models/Message.js\<close>).\<close>

record file_ref =
  fr_url :: string
  fr_filename :: string
  fr_mimetype :: string

record project_progress =
  pp_projectId :: project_id
  pp_completionPercentage :: "int option"
  pp_deadline :: "timestamp option"
  pp_lastUpdated :: timestamp

record message_doc =
  doc_id :: nat
  doc_chat :: nat
  doc_sender :: user_id
  doc_content :: js_string
  doc_attachments :: "file_ref list"
  doc_projectProgress :: "project_progress option"

text \<open>
  \<open>content\<close> is not required here; \<open>projectProgress.completionPercentage\<close> has
  \<open>min: 0\<close> and \<open>max: 100\<close>.
\<close>

definition message_doc_schema_ok :: "message_doc \<Rightarrow> bool" where
  "message_doc_schema_ok d =
     (case doc_projectProgress d of
        None \<Rightarrow> True
      | Some pp \<Rightarrow> (case pp_completionPercentage pp of
                      None \<Rightarrow> True
                    | Some n \<Rightarrow> 0 \<le> n \<and> n \<le> 100))"

section \<open>The database seen by the routes\<close>

record database =
  chat_store :: store
  projects :: "project list"
  message_docs :: "message_doc list"

definition find_project :: "project_id \<Rightarrow> project list \<Rightarrow> project option" where
  "find_project pid ps = find (\<lambda>p. proj_id p = pid) ps"

definition replace_project :: "project \<Rightarrow> project list \<Rightarrow> project list" where
  "replace_project p ps = map (\<lambda>q. if proj_id q = proj_id p then p else q) ps"

section \<open>Chat controllers\<close>

text \<open>Source: \<open>src/unnamed/part_001\<close> (\<open>controllers/chatController.js\<close>).\<close>

text \<open>
  The two objects in the answer to a module submission: the message, with the fields
  the handler copies (the display fields of the submitter are left out), and the project
  with its progress.
\<close>

record chat_message_view =
  cmv_id :: nat
  cmv_content :: js_string
  cmv_sender :: user_id
  cmv_createdAt :: timestamp
  cmv_githubLink :: "js_string option"
  cmv_attachments :: "attachment list"

record project_view =
  pv_id :: project_id
  pv_name :: js_string
  pv_progressData :: progress_data

datatype body =
    ErrorBody string
  | ChatBody chat
  | MessageBody message
  | MessagesBody "message list"
  | MessageDocBody message_doc
  | ModuleSubmittedBody chat_message_view project_view

record response =
  status :: nat
  body :: body

text \<open>
  \<open>addChatParticipant\<close> and \<open>removeChatParticipant\<close>. \<open>res.json\<close> without a status
  answers 200; an exception of \<open>save()\<close> is caught and answered with 500. The
  \<open>populate\<close> calls only add display fields of the participants and are left out.
\<close>

definition addChatParticipant :: "nat \<Rightarrow> user_id \<Rightarrow> store \<Rightarrow> response \<times> store" where
  "addChatParticipant chatId userId s =
     (case findById chatId s of
        None \<Rightarrow> (\<lparr> status = 404, body = ErrorBody ''Chat not found'' \<rparr>, s)
      | Some c \<Rightarrow>
          if list_ex (\<lambda>p. p = userId) (participants c)
          then (\<lparr> status = 400, body = ErrorBody ''User is already a participant'' \<rparr>, s)
          else (case save (c\<lparr> participants := participants c @ [userId] \<rparr>) of
                  Inl e \<Rightarrow> (\<lparr> status = 500, body = ErrorBody ''Error adding participant'' \<rparr>, s)
                | Inr c' \<Rightarrow> (\<lparr> status = 200, body = ChatBody c' \<rparr>, persist c' s)))"

definition removeChatParticipant :: "nat \<Rightarrow> user_id \<Rightarrow> store \<Rightarrow> response \<times> store" where
  "removeChatParticipant chatId userId s =
     (case findById chatId s of
        None \<Rightarrow> (\<lparr> status = 404, body = ErrorBody ''Chat not found'' \<rparr>, s)
      | Some c \<Rightarrow>
          (case save (c\<lparr> participants := filter (\<lambda>p. p \<noteq> userId) (participants c) \<rparr>) of
             Inl e \<Rightarrow> (\<lparr> status = 500, body = ErrorBody ''Error removing participant'' \<rparr>, s)
           | Inr c' \<Rightarrow> (\<lparr> status = 200, body = ChatBody c' \<rparr>, persist c' s)))"

text \<open>
  \<open>getChatMessages\<close>. The chat is loaded with the users of its receipts populated
  (populating the senders only changes how the answer renders them, and is left out).
  \<open>participants.includes\<close> of the array of ids finds the id of the user. The count
  that \<open>markAsRead\<close> returns is dropped; what it saved is the chat with the pushed
  receipts, its references stored as ids.
\<close>

definition getChatMessages ::
  "(nat \<Rightarrow> timestamp) \<Rightarrow> (user_id \<Rightarrow> user_profile option) \<Rightarrow> user_id \<Rightarrow> nat \<Rightarrow> store \<Rightarrow>
   response \<times> store" where
  "getChatMessages clock users user chatId s =
     (case findById chatId s of
        None \<Rightarrow> (\<lparr> status = 404, body = ErrorBody ''Chat not found'' \<rparr>, s)
      | Some stored \<Rightarrow>
          (let c = populate_readBy users stored
           in if \<not> list_ex (\<lambda>p. p = user) (participants c)
              then (\<lparr> status = 403, body = ErrorBody ''Not authorized to access this chat'' \<rparr>, s)
              else (case markAsRead clock user c of
                      Inl e \<Rightarrow> (\<lparr> status = 500, body = ErrorBody ''Error fetching messages'' \<rparr>, s)
                    | Inr (c', unread) \<Rightarrow>
                        (\<lparr> status = 200, body = MessagesBody (messages c') \<rparr>,
                         if unread > 0 then persist (depopulate c') s else s))))"

text \<open>
  \<open>sendMessage\<close> of the controller. \<open>cont\<close> is \<open>req.body.content\<close>, absent or a string;
  the three clock readings and the message id are those of \<open>addMessage\<close>.
\<close>

definition sendMessage ::
  "nat \<Rightarrow> timestamp \<Rightarrow> timestamp \<Rightarrow> timestamp \<Rightarrow>
   user_id \<Rightarrow> nat \<Rightarrow> js_string option \<Rightarrow> store \<Rightarrow> response \<times> store" where
  "sendMessage mid t_created t_read t_last user chatId cont s =
     (case cont of
        None \<Rightarrow> (\<lparr> status = 400, body = ErrorBody ''Message content is required'' \<rparr>, s)
      | Some text \<Rightarrow>
          if text = [] \<or> trim text = []
          then (\<lparr> status = 400, body = ErrorBody ''Message content is required'' \<rparr>, s)
          else (case findById chatId s of
                  None \<Rightarrow> (\<lparr> status = 404, body = ErrorBody ''Chat not found'' \<rparr>, s)
                | Some c \<Rightarrow>
                    if \<not> list_ex (\<lambda>p. p = user) (participants c)
                    then (\<lparr> status = 403,
                            body = ErrorBody ''Not authorized to send messages in this chat'' \<rparr>, s)
                    else (case addMessage mid t_created t_read t_last user (trim text) [] None c of
                            Inl e \<Rightarrow> (\<lparr> status = 500, body = ErrorBody ''Error sending message'' \<rparr>, s)
                          | Inr (c', m) \<Rightarrow> (\<lparr> status = 201, body = MessageBody m \<rparr>, persist c' s))))"

section \<open>Chat routes\<close>

text \<open>Source: \<open>src/backend/src/routes/chatRoutes.js\<close>, lines 123 to 204.\<close>

text \<open>
  \<open>POST /:chatId/messages\<close>, the handler mounted by the router. The request carries the
  authenticated user, the optional form field \<open>content\<close>, the uploaded files, and the
  form field \<open>projectProgress\<close>, here already parsed (\<open>None\<close> when the field is absent
  or does not parse).
\<close>

record upload =
  up_originalname :: string
  up_filename :: string
  up_path :: string
  up_mimetype :: string
  up_size :: nat

record progress_request =
  pr_projectId :: project_id
  pr_completionPercentage :: "int option"
  pr_deadline :: "timestamp option"

text \<open>
  \<open>Project.findByIdAndUpdate(id, { completionPercentage, lastUpdated: new Date() })\<close>:
  the fields are written as given, without validation; a field that is undefined is not
  written; an id that matches no project changes nothing.
\<close>

definition findByIdAndUpdate ::
  "project_id \<Rightarrow> int option \<Rightarrow> timestamp \<Rightarrow> project list \<Rightarrow> project list" where
  "findByIdAndUpdate pid pct now ps =
     map (\<lambda>p. if proj_id p = pid
               then p\<lparr> completionPercentage :=
                           (case pct of None \<Rightarrow> completionPercentage p | Some n \<Rightarrow> n),
                        lastUpdated := now \<rparr>
               else p) ps"

text \<open>
  \<open>chat.messages.push(message._id)\<close>: \<open>messages\<close> is declared as an array of message
  subdocuments, and a pushed id is cast to a subdocument that has this id and the
  defaults, and neither sender nor content.
  In \<open>post_message\<close> below, \<open>t_progress\<close> is the default of
  \<open>projectProgress.lastUpdated\<close>, \<open>t_update\<close> the \<open>new Date()\<close> written to the
  project, \<open>t_pushed\<close> the default of \<open>createdAt\<close> of the pushed subdocument, and the
  id of the new message document is the next fresh id.
\<close>

definition subdocument_of_id :: "nat \<Rightarrow> timestamp \<Rightarrow> message" where
  "subdocument_of_id mid t_created =
     \<lparr> msg_id = mid, sender = [], content = [], githubLink = None, attachments = [],
       readBy = [], createdAt = t_created \<rparr>"

definition post_message ::
  "timestamp \<Rightarrow> timestamp \<Rightarrow> timestamp \<Rightarrow> user_id \<Rightarrow> nat \<Rightarrow> js_string option \<Rightarrow> upload list \<Rightarrow>
   progress_request option \<Rightarrow> database \<Rightarrow> response \<times> database" where
  "post_message t_progress t_update t_pushed user chatId cont files projectProgress db =
     (case findById chatId (chat_store db) of
        None \<Rightarrow> (\<lparr> status = 404, body = ErrorBody ''Chat not found'' \<rparr>, db)
      | Some c \<Rightarrow>
          if \<not> list_ex (\<lambda>p. p = user) (participants c)
          then (\<lparr> status = 403,
                  body = ErrorBody ''Not authorized to send messages in this chat'' \<rparr>, db)
          else
            (let atts = map (\<lambda>f. \<lparr> fr_url = up_path f, fr_filename = up_filename f,
                                    fr_mimetype = up_mimetype f \<rparr>) files;
                 mid = next_id (chat_store db);
                 db0 = db\<lparr> chat_store := (chat_store db)\<lparr> next_id := Suc mid \<rparr> \<rparr>;
                 msg0 = \<lparr> doc_id = mid, doc_chat = chatId, doc_sender = user,
                          doc_content = trim (case cont of None \<Rightarrow> [] | Some text \<Rightarrow> text),
                          doc_attachments = atts, doc_projectProgress = None \<rparr>;
                 (msg, db1) =
                   (case projectProgress of
                      Some pr \<Rightarrow>
                        if ctype c = Project
                        then (msg0\<lparr> doc_projectProgress :=
                                      Some \<lparr> pp_projectId = pr_projectId pr,
                                             pp_completionPercentage = pr_completionPercentage pr,
                                             pp_deadline = pr_deadline pr,
                                             pp_lastUpdated = t_progress \<rparr> \<rparr>,
                              db0\<lparr> projects := findByIdAndUpdate (pr_projectId pr)
                                      (pr_completionPercentage pr) t_update (projects db0) \<rparr>)
                        else (msg0, db0)
                    | None \<Rightarrow> (msg0, db0))
             in if \<not> message_doc_schema_ok msg
                then (\<lparr> status = 500, body = ErrorBody ''Error creating message'' \<rparr>, db1)
                else
                  (let db2 = db1\<lparr> message_docs := message_docs db1 @ [msg] \<rparr>
                   in case save (c\<lparr> messages := messages c @ [subdocument_of_id mid t_pushed] \<rparr>) of
                        Inl e \<Rightarrow> (\<lparr> status = 500, body = ErrorBody ''Error creating message'' \<rparr>, db2)
                      | Inr c' \<Rightarrow>
                          (\<lparr> status = 201, body = MessageDocBody msg \<rparr>,
                           db2\<lparr> chat_store := persist c' (chat_store db2) \<rparr>))))"

section \<open>Project routes: module submission\<close>

text \<open>Source: \<open>src/backend/src/routes/moduleRoutes.js\<close>, lines 634 to 821.\<close>

text \<open>Decimal rendering of a number in a template string.\<close>

fun decimal :: "nat \<Rightarrow> js_string" where
  "decimal n = (if n < 10 then [48 + n] else decimal (n div 10) @ [48 + n mod 10])"

definition number_to_string :: "int \<Rightarrow> js_string" where
  "number_to_string i = (if i < 0 then 45 # decimal (nat (- i)) else decimal (nat i))"

text \<open>
  \<open>parseInt\<close> of a string: leading white space is skipped, a sign is read (45 is the
  minus, 43 the plus), a prefix \<open>0x\<close> or \<open>0X\<close> (48, then 120 or 88) selects radix 16,
  and the longest run of digits of the radix is the value; with no digit the result is
  NaN, here \<open>None\<close>.
\<close>

definition digit_value :: "code_unit \<Rightarrow> nat" where
  "digit_value u =
     (if 48 \<le> u \<and> u \<le> 57 then u - 48
      else if 97 \<le> u \<and> u \<le> 122 then u - 87
      else if 65 \<le> u \<and> u \<le> 90 then u - 55
      else 36)"

definition parseInt :: "js_string \<Rightarrow> int option" where
  "parseInt str =
     (let s1 = dropWhile is_space str;
          negative = (s1 \<noteq> [] \<and> hd s1 = 45);
          s2 = (if s1 \<noteq> [] \<and> (hd s1 = 45 \<or> hd s1 = 43) then tl s1 else s1);
          hex = (length s2 \<ge> 2 \<and> hd s2 = 48 \<and> (s2 ! 1 = 120 \<or> s2 ! 1 = 88));
          radix = (if hex then 16 else 10);
          s3 = (if hex then drop 2 s2 else s2);
          ds = takeWhile (\<lambda>u. digit_value u < radix) s3;
          v = foldl (\<lambda>acc u. acc * radix + digit_value u) 0 ds
      in if ds = [] then None
         else Some (if negative then - int v else int v))"

record module_request =
  mr_title :: "js_string option"
  mr_description :: "js_string option"
  mr_completionPercentage :: "js_string option"
  mr_githubLink :: "js_string option"
  mr_files :: "upload list"

text \<open>
  The ids and clock readings a submission consumes: the default of \<open>submittedAt\<close>, the
  id of the message subdocument, the \<open>new Date()\<close> of its \<open>createdAt\<close>, the default of
  \<open>readAt\<close>, the \<open>new Date()\<close> of \<open>lastMessage\<close>, and the one of the response.
\<close>

record module_env =
  me_submittedAt :: timestamp
  me_message_id :: nat
  me_createdAt :: timestamp
  me_readAt :: timestamp
  me_lastMessageAt :: timestamp
  me_respondedAt :: timestamp

text \<open>
  Lines 711 to 713 of the handler: the average of all submissions, the new one included.
  The handler binds it to \<open>averageProgress\<close> and does not use the binding.
\<close>

definition averageProgress :: "project \<Rightarrow> int" where
  "averageProgress p =
     Math_round (of_int (totalPercentage (moduleSubmissions p))
                 / of_int (int (length (moduleSubmissions p))))"

definition module_message_content :: "js_string \<Rightarrow> int \<Rightarrow> js_string option \<Rightarrow> js_string" where
  "module_message_content title percentage gl =
     js ''Module Submitted: '' @ title @ js '' ('' @ number_to_string percentage
       @ js ''% complete)'' @ (if truthy gl then js '' - View Repository'' else [])"

text \<open>
  \<open>POST /:id/modules\<close>. Removing the uploaded files from disk on the error paths is left
  out. The project is saved before the chat is looked up, so the answers 404 and 500 that
  follow keep the saved submission.
\<close>

definition submit_module ::
  "module_env \<Rightarrow> user_id \<Rightarrow> project_id \<Rightarrow> module_request \<Rightarrow> database \<Rightarrow> response \<times> database" where
  "submit_module env user pid req db =
     (if \<not> truthy (mr_title req) \<or> trim (the (mr_title req)) = []
      then (\<lparr> status = 400, body = ErrorBody ''Module title is required'' \<rparr>, db)
      else if mr_completionPercentage req = None \<or> mr_completionPercentage req = Some []
      then (\<lparr> status = 400, body = ErrorBody ''Completion percentage is required'' \<rparr>, db)
      else
        (case parseInt (the (mr_completionPercentage req)) of
           None \<Rightarrow> (\<lparr> status = 400,
                      body = ErrorBody ''Completion percentage must be a number between 0 and 100'' \<rparr>, db)
         | Some percentage \<Rightarrow>
             if percentage < 0 \<or> percentage > 100
             then (\<lparr> status = 400,
                     body = ErrorBody ''Completion percentage must be a number between 0 and 100'' \<rparr>, db)
             else
               (case find (\<lambda>p. proj_id p = pid \<and> (proj_owner p = user \<or> user \<in> set (proj_collaborators p)))
                       (projects db) of
                  None \<Rightarrow> (\<lparr> status = 404, body = ErrorBody ''Project not found or unauthorized'' \<rparr>, db)
                | Some p \<Rightarrow>
                    (let title = the (mr_title req);
                         moduleSubmission =
                           \<lparr> sub_title = trim title,
                             sub_description = (if truthy (mr_description req)
                                                then trim (the (mr_description req)) else []),
                             sub_githubLink = map_option trim (or_null (mr_githubLink req)),
                             sub_files = map (\<lambda>f. \<lparr> sf_filename = up_originalname f, sf_path = up_path f,
                                                     sf_mimetype = up_mimetype f, sf_size = up_size f \<rparr>)
                                           (mr_files req),
                             sub_completionPercentage = percentage,
                             sub_submittedBy = user,
                             sub_submittedAt = me_submittedAt env \<rparr>;
                         p1 = p\<lparr> moduleSubmissions := moduleSubmissions p @ [moduleSubmission] \<rparr>
                     in case save_project p1 of
                          Inl e \<Rightarrow> (\<lparr> status = 500, body = ErrorBody ''Error submitting module'' \<rparr>, db)
                        | Inr p2 \<Rightarrow>
                            (let db1 = db\<lparr> projects := replace_project p2 (projects db) \<rparr>
                             in case find (\<lambda>c. ctype c = Project \<and> project c = Some (proj_id p2))
                                       (chats (chat_store db1)) of
                                  None \<Rightarrow> (\<lparr> status = 404,
                                             body = ErrorBody ''Chat not found for project'' \<rparr>, db1)
                                | Some c \<Rightarrow>
                                    (let messageContent =
                                           module_message_content title percentage (mr_githubLink req);
                                         msg = \<lparr> msg_id = me_message_id env, sender = user,
                                                 content = messageContent,
                                                 githubLink = map_option trim (or_null (mr_githubLink req)),
                                                 attachments =
                                                   [\<lparr> att_type = Module, att_filename = None, att_path = None,
                                                      att_mimetype = None, att_size = None,
                                                      att_language = None, att_preview = None,
                                                      att_moduleData =
                                                        Some \<lparr> md_title = title,
                                                               md_description = mr_description req,
                                                               md_completionPercentage = percentage,
                                                               md_githubLink = or_null (mr_githubLink req) \<rparr> \<rparr>],
                                                 readBy = [\<lparr> rr_user = Ref user, rr_readAt = me_readAt env \<rparr>],
                                                 createdAt = me_createdAt env \<rparr>;
                                         c1 = c\<lparr> messages := messages c @ [msg],
                                                 lastMessage :=
                                                   Some \<lparr> lm_content = messageContent, lm_sender = user,
                                                          lm_createdAt = me_lastMessageAt env,
                                                          lm_hasAttachments = None,
                                                          lm_githubLink = or_null (mr_githubLink req) \<rparr> \<rparr>
                                     in case save c1 of
                                          Inl e \<Rightarrow> (\<lparr> status = 500,
                                                     body = ErrorBody ''Error submitting module'' \<rparr>, db1)
                                        | Inr c2 \<Rightarrow>
                                            (let newMessage = last (messages c2)
                                             in (\<lparr> status = 201,
                                                   body = ModuleSubmittedBody
                                                     \<lparr> cmv_id = msg_id newMessage,
                                                       cmv_content = content newMessage,
                                                       cmv_sender = user,
                                                       cmv_createdAt = createdAt newMessage,
                                                       cmv_githubLink = githubLink newMessage,
                                                       cmv_attachments = attachments newMessage \<rparr>
                                                     \<lparr> pv_id = proj_id p2, pv_name = proj_name p2,
                                                       pv_progressData =
                                                         \<lparr> pd_completionPercentage =
                                                             pd_completionPercentage
                                                               (progressData (me_respondedAt env) p2),
                                                           pd_lastUpdated = me_respondedAt env \<rparr> \<rparr> \<rparr>,
                                                 db1\<lparr> chat_store := persist c2 (chat_store db1) \<rparr>))))))))"

section \<open>Realtime gateway\<close>

text \<open>
  Source: the server, in \<open>src/backend/src/routes/userRoutes.js\<close>, lines 149 to 166
  and 221 to 240.
\<close>

text \<open>
  \<open>jwt.verify(token, secret)\<close> is called without a callback, so it returns the decoded
  claims or throws before the middleware goes on. The library is a parameter of the
  model: \<open>verify token\<close> is the decoded user, or \<open>None\<close> where the call throws.
\<close>

record handshake =
  auth_token :: "string option"

definition authenticateSocket ::
  "(string \<Rightarrow> user_id option) \<Rightarrow> handshake \<Rightarrow> string + user_id" where
  "authenticateSocket verify hs =
     (if \<not> truthy (auth_token hs)
      then Inl ''Authentication error: No token provided''
      else (case verify (the (auth_token hs)) of
              Some decoded \<Rightarrow> Inr decoded
            | None \<Rightarrow> Inl ''Authentication error: Invalid token''))"

text \<open>
  A connection, as the server sees it. \<open>io.use(authenticateSocket)\<close> runs the middleware
  on every incoming connection; when it calls \<open>next\<close> with an error the connection is
  refused with that error and the \<open>connection\<close> handler never runs, so the socket has
  no listener. When it calls \<open>next()\<close> the handler registers the listeners for
  \<open>join room\<close>, \<open>leave room\<close> and \<open>disconnect\<close>. \<open>room_ops\<close> records every
  \<open>socket.join\<close> and \<open>socket.leave\<close> the server performs, latest last.
\<close>

datatype phase = Connecting | Refused string | Admitted user_id | Closed

datatype room_op = Join string | Leave string

record connection =
  phase :: phase
  rooms :: "string list"
  room_ops :: "room_op list"

datatype socket_event = Connect handshake | Emit string string | Disconnect

definition new_connection :: connection where
  "new_connection = \<lparr> phase = Connecting, rooms = [], room_ops = [] \<rparr>"

fun on_event :: "(string \<Rightarrow> user_id option) \<Rightarrow> connection \<Rightarrow> socket_event \<Rightarrow> connection" where
  "on_event verify conn (Connect hs) =
     (case phase conn of
        Connecting \<Rightarrow>
          (case authenticateSocket verify hs of
             Inl err \<Rightarrow> conn\<lparr> phase := Refused err \<rparr>
           | Inr user \<Rightarrow> conn\<lparr> phase := Admitted user \<rparr>)
      | _ \<Rightarrow> conn)"
| "on_event verify conn (Emit name room) =
     (case phase conn of
        Admitted user \<Rightarrow>
          if name = ''join room''
          then conn\<lparr> rooms := List.insert room (rooms conn), room_ops := room_ops conn @ [Join room] \<rparr>
          else if name = ''leave room''
          then conn\<lparr> rooms := removeAll room (rooms conn), room_ops := room_ops conn @ [Leave room] \<rparr>
          else conn
      | _ \<Rightarrow> conn)"
| "on_event verify conn Disconnect =
     (case phase conn of
        Admitted user \<Rightarrow> conn\<lparr> phase := Closed, rooms := [] \<rparr>
      | _ \<Rightarrow> conn)"

definition run_connection :: "(string \<Rightarrow> user_id option) \<Rightarrow> socket_event list \<Rightarrow> connection" where
  "run_connection verify evs = foldl (on_event verify) new_connection evs"

text \<open>A connection that has not passed the middleware and has touched no room.\<close>

definition unauthenticated :: "connection \<Rightarrow> bool" where
  "unauthenticated conn =
     ((case phase conn of Connecting \<Rightarrow> True | Refused err \<Rightarrow> True
       | Admitted user \<Rightarrow> False | Closed \<Rightarrow> False)
      \<and> rooms conn = [] \<and> room_ops conn = [])"

section \<open>Client reconciliation\<close>

text \<open>
  Source: \<open>src/frontend/src/components/ChatWindow.jsx\<close>, lines 161 to 198 and 357
  to 394.
\<close>

text \<open>
  The values of the client are those of JSON payloads, with \<open>undefined\<close> and dates.
  An object is the list of its own properties in insertion order.
\<close>

datatype jsval =
    JUndefined
  | JNull
  | JBool bool
  | JNum int
  | JStr string
  | JDate timestamp
  | JArr "jsval list"
  | JObj "(string \<times> jsval) list"

type_synonym obj = "(string \<times> jsval) list"

definition js_truthy :: "jsval \<Rightarrow> bool" where
  "js_truthy v =
     (case v of JUndefined \<Rightarrow> False | JNull \<Rightarrow> False | JBool b \<Rightarrow> b | JNum n \<Rightarrow> n \<noteq> 0
      | JStr s \<Rightarrow> s \<noteq> [] | JDate t \<Rightarrow> True | JArr xs \<Rightarrow> True | JObj kvs \<Rightarrow> True)"

definition js_or :: "jsval \<Rightarrow> jsval \<Rightarrow> jsval" where
  "js_or a b = (if js_truthy a then a else b)"

text \<open>
  \<open>===\<close>: primitives are compared by value. Objects and arrays are compared by
  reference, and every payload is deserialised afresh, so two of them are never the same.
\<close>

definition strict_eq :: "jsval \<Rightarrow> jsval \<Rightarrow> bool" where
  "strict_eq a b =
     (case a of JArr xs \<Rightarrow> False | JObj kvs \<Rightarrow> False | JDate t \<Rightarrow> False | _ \<Rightarrow> a = b)"

text \<open>Reading a property (\<open>undefined\<close> when absent), and reading one of any value.\<close>

definition get_prop :: "obj \<Rightarrow> string \<Rightarrow> jsval" where
  "get_prop ob k = (case map_of ob k of None \<Rightarrow> JUndefined | Some v \<Rightarrow> v)"

definition has_prop :: "obj \<Rightarrow> string \<Rightarrow> bool" where
  "has_prop ob k = (map_of ob k \<noteq> None)"

definition props :: "jsval \<Rightarrow> obj" where
  "props v = (case v of JObj kvs \<Rightarrow> kvs | _ \<Rightarrow> [])"

text \<open>
  Defining a property in an object literal: an existing key keeps its place and takes
  the new value, a new key goes to the end. \<open>{...a, ...b}\<close> defines, for every key of
  \<open>a\<close> and then for every key of \<open>b\<close>, the property with the value read from there.
\<close>

definition set_prop :: "string \<Rightarrow> jsval \<Rightarrow> obj \<Rightarrow> obj" where
  "set_prop k v ob =
     (if has_prop ob k then map (\<lambda>kv. if fst kv = k then (k, v) else kv) ob else ob @ [(k, v)])"

definition keys :: "obj \<Rightarrow> string list" where
  "keys ob = remdups (map fst ob)"

definition spread :: "obj \<Rightarrow> obj \<Rightarrow> obj" where
  "spread target src = foldl (\<lambda>acc k. set_prop k (get_prop src k) acc) target (keys src)"

definition findIndex :: "('a \<Rightarrow> bool) \<Rightarrow> 'a list \<Rightarrow> nat option" where
  "findIndex P xs = (if list_ex P xs then Some (length (takeWhile (\<lambda>x. \<not> P x) xs)) else None)"

definition unknown_sender :: jsval where
  "unknown_sender = JObj [(''_id'', JStr ''unknown''), (''name'', JStr ''Unknown User'')]"

text \<open>
  \<open>handleMessageUpdate\<close>, as the function it passes to \<open>setMessages\<close>; \<open>now\<close> is the
  \<open>new Date()\<close> of the appended entry.
\<close>

definition handleMessageUpdate :: "timestamp \<Rightarrow> jsval \<Rightarrow> obj list \<Rightarrow> obj list" where
  "handleMessageUpdate now message prev =
     (if \<not> js_truthy message \<or> \<not> js_truthy (get_prop (props message) ''_id'')
      then prev
      else
        (let m = props message
         in case findIndex (\<lambda>e. strict_eq (get_prop e ''_id'') (get_prop m ''_id'')) prev of
              Some existingIndex \<Rightarrow>
                (let old = prev ! existingIndex
                 in prev[existingIndex :=
                      set_prop ''githubLink'' (js_or (get_prop m ''githubLink'') (get_prop old ''githubLink''))
                        (set_prop ''createdAt'' (js_or (get_prop m ''createdAt'') (get_prop old ''createdAt''))
                          (set_prop ''sender''
                             (js_or (get_prop m ''sender'') (js_or (get_prop old ''sender'') unknown_sender))
                             (spread (spread [] old) m)))])
            | None \<Rightarrow>
                prev @ [ [(''_id'', get_prop m ''_id''),
                         (''content'', js_or (get_prop m ''content'') (JStr [])),
                         (''sender'', js_or (get_prop m ''sender'') unknown_sender),
                         (''createdAt'', js_or (get_prop m ''createdAt'') (JDate now)),
                         (''attachments'', js_or (get_prop m ''attachments'') (JArr [])),
                         (''readBy'', js_or (get_prop m ''readBy'') (JArr [])),
                         (''githubLink'', get_prop m ''githubLink'')] ]))"

text \<open>
  The two entries \<open>handleMessageUpdate\<close> writes, by name: the one that replaces an
  existing entry, and the one that is appended.
\<close>

definition merged_entry :: "obj \<Rightarrow> obj \<Rightarrow> obj" where
  "merged_entry old m =
     set_prop ''githubLink'' (js_or (get_prop m ''githubLink'') (get_prop old ''githubLink''))
       (set_prop ''createdAt'' (js_or (get_prop m ''createdAt'') (get_prop old ''createdAt''))
         (set_prop ''sender''
            (js_or (get_prop m ''sender'') (js_or (get_prop old ''sender'') unknown_sender))
            (spread (spread [] old) m)))"

definition appended_entry :: "timestamp \<Rightarrow> obj \<Rightarrow> obj" where
  "appended_entry now m =
     [(''_id'', get_prop m ''_id''),
      (''content'', js_or (get_prop m ''content'') (JStr [])),
      (''sender'', js_or (get_prop m ''sender'') unknown_sender),
      (''createdAt'', js_or (get_prop m ''createdAt'') (JDate now)),
      (''attachments'', js_or (get_prop m ''attachments'') (JArr [])),
      (''readBy'', js_or (get_prop m ''readBy'') (JArr [])),
      (''githubLink'', get_prop m ''githubLink'')]"

text \<open>
  The listener of \<open>receive_message\<close>, as far as the message list goes: a payload that
  wraps the message in a field \<open>message\<close> is unwrapped into the six fields the listener
  names; any other payload is passed on as it is. Reading \<open>message.message\<close> of
  \<open>null\<close> or \<open>undefined\<close> throws, and the list stays as it was. After a
  wrapped message has been handed to \<open>handleMessageUpdate\<close> the listener reads
  \<open>message.message.content.includes\<close>, which throws when the content is not a
  string; the update of the list has been queued by then and is applied all the same.
\<close>

definition receive_message :: "timestamp \<Rightarrow> jsval \<Rightarrow> obj list \<Rightarrow> obj list" where
  "receive_message now payload prev =
     (if payload = JUndefined \<or> payload = JNull then prev
      else
        (let inner = get_prop (props payload) ''message''
         in if js_truthy inner
            then handleMessageUpdate now
                   (JObj [(''_id'', get_prop (props inner) ''_id''),
                          (''content'', get_prop (props inner) ''content''),
                          (''sender'', get_prop (props inner) ''sender''),
                          (''createdAt'', get_prop (props inner) ''createdAt''),
                          (''githubLink'', get_prop (props inner) ''githubLink''),
                          (''attachments'', js_or (get_prop (props inner) ''attachments'') (JArr []))])
                   prev
            else handleMessageUpdate now payload prev))"

text \<open>The realtime events of a session, applied in their order of arrival.\<close>

fun receive_all :: "(timestamp \<times> jsval) list \<Rightarrow> obj list \<Rightarrow> obj list" where
  "receive_all [] prev = prev"
| "receive_all ((now, payload) # evs) prev = receive_all evs (receive_message now payload prev)"

text \<open>The list has at most one entry for an id.\<close>

fun one_entry_per_id :: "obj list \<Rightarrow> bool" where
  "one_entry_per_id [] = True"
| "one_entry_per_id (e # es) =
     (list_all (\<lambda>e'. \<not> strict_eq (get_prop e ''_id'') (get_prop e' ''_id'')) es
      \<and> one_entry_per_id es)"

section \<open>Example data\<close>

definition example_chat :: chat where
  "example_chat =
     \<lparr> chat_id = 0, ctype = Direct, participants = [''alice'', ''bob''], project = None,
       messages =
         [\<lparr> msg_id = 1, sender = ''alice'', content = js ''hello'', githubLink = None,
            attachments = [],
            readBy = [\<lparr> rr_user = Ref ''alice'', rr_readAt = 10 \<rparr>,
                      \<lparr> rr_user = Ref ''bob'', rr_readAt = 12 \<rparr>],
            createdAt = 10 \<rparr>,
          \<lparr> msg_id = 2, sender = ''alice'', content = js ''are you there?'', githubLink = None,
            attachments = [], readBy = [\<lparr> rr_user = Ref ''alice'', rr_readAt = 20 \<rparr>],
            createdAt = 20 \<rparr>],
       lastMessage = Some \<lparr> lm_content = js ''are you there?'', lm_sender = ''alice'',
                            lm_createdAt = 20, lm_hasAttachments = Some False,
                            lm_githubLink = None \<rparr> \<rparr>"

definition example_project_chat :: chat where
  "example_project_chat =
     \<lparr> chat_id = 1, ctype = Project, participants = [''alice''], project = Some ''p1'',
       messages = [], lastMessage = None \<rparr>"

definition example_store :: store where
  "example_store = \<lparr> chats = [example_chat, example_project_chat], next_id = 3 \<rparr>"

definition empty_store :: store where
  "empty_store = \<lparr> chats = [], next_id = 0 \<rparr>"

definition direct_chat :: "nat \<Rightarrow> user_id \<Rightarrow> user_id \<Rightarrow> chat" where
  "direct_chat i a b =
     \<lparr> chat_id = i, ctype = Direct, participants = [a, b], project = None, messages = [],
       lastMessage = None \<rparr>"

definition example_image :: attachment where
  "example_image =
     \<lparr> att_type = Image, att_filename = Some ''cat.png'', att_path = Some ''uploads/chat/images/cat.png'',
       att_mimetype = Some ''image/png'', att_size = Some 2048, att_language = None,
       att_preview = None, att_moduleData = None \<rparr>"

definition example_project :: project where
  "example_project =
     \<lparr> proj_id = ''p1'', proj_name = js ''Compiler'',
       proj_description = js ''A small compiler'', proj_owner = ''alice'',
       proj_collaborators = [''bob''], proj_deadline = 900,
       moduleSubmissions =
         [\<lparr> sub_title = js ''Parser'', sub_description = [], sub_githubLink = None, sub_files = [],
            sub_completionPercentage = 40, sub_submittedBy = ''alice'', sub_submittedAt = 100 \<rparr>],
       completionPercentage = 0, lastUpdated = 5 \<rparr>"

definition example_submission :: "int \<Rightarrow> timestamp \<Rightarrow> submission" where
  "example_submission pct t =
     \<lparr> sub_title = js ''Module'', sub_description = [], sub_githubLink = None, sub_files = [],
       sub_completionPercentage = pct, sub_submittedBy = ''alice'', sub_submittedAt = t \<rparr>"

definition three_module_project :: project where
  "three_module_project =
     example_project\<lparr> moduleSubmissions :=
       [example_submission 100 30, example_submission 20 50, example_submission 60 10] \<rparr>"

definition example_db :: database where
  "example_db =
     \<lparr> chat_store = example_store, projects = [example_project], message_docs = [] \<rparr>"

definition example_module_request :: module_request where
  "example_module_request =
     \<lparr> mr_title = Some (js ''Lexer''), mr_description = None,
       mr_completionPercentage = Some (js ''80''),
       mr_githubLink = None, mr_files = [] \<rparr>"

definition example_env :: module_env where
  "example_env =
     \<lparr> me_submittedAt = 200, me_message_id = 7, me_createdAt = 201, me_readAt = 201,
       me_lastMessageAt = 202, me_respondedAt = 203 \<rparr>"

definition example_verify :: "string \<Rightarrow> user_id option" where
  "example_verify token = (if token = ''signed-for-alice'' then Some ''alice'' else None)"

definition example_history :: "obj list" where
  "example_history =
     [ [(''_id'', JStr ''m1''), (''content'', JStr ''hi''), (''sender'', JStr ''alice''),
       (''createdAt'', JStr ''2024-05-01T10:00:00Z''),
       (''githubLink'', JStr ''https://github.com/a/b''), (''attachments'', JArr [])] ]"

definition example_users :: "user_id \<Rightarrow> user_profile option" where
  "example_users uid =
     (if uid = ''alice'' then Some \<lparr> usr_name = ''Alice'', usr_username = ''alice01'' \<rparr>
      else if uid = ''bob'' then Some \<lparr> usr_name = ''Bob'', usr_username = ''bob02'' \<rparr>
      else None)"

definition example_clock :: "nat \<Rightarrow> timestamp" where
  "example_clock k = 1001 + 2 * k"

definition example_store_read_once :: store where
  "example_store_read_once =
     snd (getChatMessages example_clock example_users ''bob'' 0 example_store)"

definition example_store_read_twice :: store where
  "example_store_read_twice =
     snd (getChatMessages example_clock example_users ''bob'' 0 example_store_read_once)"

section \<open>Read receipts\<close>

lemma some_receipt_of_refs:
  assumes "list_all (\<lambda>read. is_Ref (rr_user read)) rs"
  shows "some_receipt_of u rs = Inr (u \<in> set (map (\<lambda>read. ref_id (rr_user read)) rs))"
  using assms
proof (induction rs)
  case Nil
  then show ?case by simp
next
  case (Cons r rs)
  then obtain uid where "rr_user r = Ref uid"
    by (cases "rr_user r") (simp_all add: is_Ref_def)
  with Cons show ?case by (auto simp add: ref_toString_def ref_id_def)
qed

lemma is_read_by_refs:
  "list_all (\<lambda>read. is_Ref (rr_user read)) (readBy m) \<Longrightarrow>
   is_read_by u m = Inr (u \<in> set (readers m))"
  by (simp add: is_read_by_def readers_def some_receipt_of_refs)

lemma unread_flags_refs:
  assumes "list_all (\<lambda>m. list_all (\<lambda>read. is_Ref (rr_user read)) (readBy m)) ms"
  shows "unread_flags u ms = Inr (map (\<lambda>m. u \<notin> set (readers m)) ms)"
  using assms by (induction ms) (simp_all add: is_read_by_refs)

lemma push_receipts_Cons:
  "push_receipts clock k u (f # flags) (m # ms) =
     (if f then m\<lparr> readBy := readBy m @ [\<lparr> rr_user = Ref u, rr_readAt = clock k \<rparr>] \<rparr>
                  # push_receipts clock (Suc k) u flags ms
      else m # push_receipts clock k u flags ms)"
  by (cases f) simp_all

lemma push_receipts_none:
  "list_all (\<lambda>f. \<not> f) flags \<Longrightarrow> push_receipts clock k u flags ms = ms"
  by (induction clock k u flags ms rule: push_receipts.induct) simp_all

lemma push_receipts_marked:
  "list_all (\<lambda>m. u \<in> set (readers m)) (push_receipts clock k u (map (\<lambda>m. u \<notin> set (readers m)) ms) ms)"
  by (induction ms arbitrary: k) (simp_all add: push_receipts_Cons readers_def ref_id_def)

lemma push_receipts_refs:
  "list_all (\<lambda>m. list_all (\<lambda>read. is_Ref (rr_user read)) (readBy m)) ms \<Longrightarrow>
   list_all (\<lambda>m. list_all (\<lambda>read. is_Ref (rr_user read)) (readBy m))
     (push_receipts clock k u (map (\<lambda>m. u \<notin> set (readers m)) ms) ms)"
  by (induction ms arbitrary: k) (simp_all add: push_receipts_Cons is_Ref_def)

lemma push_receipts_schema:
  "list_all message_schema_ok ms \<Longrightarrow>
   list_all message_schema_ok (push_receipts clock k u flags ms)"
  by (induction clock k u flags ms rule: push_receipts.induct)
     (simp_all add: message_schema_ok_def)

lemma push_receipts_readers:
  "map readers (push_receipts clock k u (map (\<lambda>m. u \<notin> set (readers m)) ms) ms) =
     map (\<lambda>m. if u \<in> set (readers m) then readers m else readers m @ [u]) ms"
  by (induction ms arbitrary: k) (simp_all add: push_receipts_Cons readers_def ref_id_def)

text \<open>
  On a chat whose receipts hold ids, the method does what claim C5 says: it marks the
  messages that the user has not read, counts them, and a second call finds nothing.
\<close>

lemma markAsRead_on_stored_chat:
  assumes "unpopulated c" and "chat_schema_ok c"
  shows "\<exists>c'. markAsRead clock u c =
                 Inr (c', length (filter (\<lambda>m. u \<notin> set (readers m)) (messages c)))
           \<and> map readers (messages c') =
               map (\<lambda>m. if u \<in> set (readers m) then readers m else readers m @ [u]) (messages c)
           \<and> markAsRead clock' u c' = Inr (c', 0)"
proof -
  let ?flags = "map (\<lambda>m. u \<notin> set (readers m)) (messages c)"
  let ?ms = "push_receipts clock 0 u ?flags (messages c)"
  let ?c' = "c\<lparr> messages := ?ms \<rparr>"
  have refs: "list_all (\<lambda>m. list_all (\<lambda>read. is_Ref (rr_user read)) (readBy m)) (messages c)"
    using assms(1) by (simp add: unpopulated_def)
  have flags: "unread_flags u (messages c) = Inr ?flags"
    by (rule unread_flags_refs [OF refs])
  have n: "length (filter (\<lambda>f. f) ?flags) = length (filter (\<lambda>m. u \<notin> set (readers m)) (messages c))"
    by (simp add: filter_map comp_def)
  have ok: "chat_schema_ok ?c'"
    using assms(2) by (simp add: chat_schema_ok_def push_receipts_schema)
  have first: "markAsRead clock u c =
                 Inr (?c', length (filter (\<lambda>m. u \<notin> set (readers m)) (messages c)))"
    unfolding markAsRead_def flags using n ok
    by (simp add: Let_def save_def push_receipts_none filter_empty_conv list_all_iff)
  have refs': "list_all (\<lambda>m. list_all (\<lambda>read. is_Ref (rr_user read)) (readBy m)) ?ms"
    by (rule push_receipts_refs [OF refs])
  have marked: "list_all (\<lambda>m. u \<in> set (readers m)) ?ms"
    by (rule push_receipts_marked)
  have flags': "unread_flags u ?ms = Inr (map (\<lambda>m. u \<notin> set (readers m)) ?ms)"
    by (rule unread_flags_refs [OF refs'])
  have none: "list_all (\<lambda>f. \<not> f) (map (\<lambda>m. u \<notin> set (readers m)) ?ms)"
    using marked by (simp add: list_all_iff)
  have zero: "filter (\<lambda>f. f) (map (\<lambda>m. u \<notin> set (readers m)) ?ms) = []"
    using marked by (simp add: filter_empty_conv list_all_iff)
  have second: "markAsRead clock' u ?c' = Inr (?c', 0)"
    unfolding markAsRead_def using flags' zero push_receipts_none [OF none]
    by (simp add: Let_def)
  have rd: "map readers (messages ?c') =
               map (\<lambda>m. if u \<in> set (readers m) then readers m else readers m @ [u]) (messages c)"
    by (simp add: push_receipts_readers)
  from first rd second show ?thesis by blast
qed

lemma render_user_not_id:
  "userId \<noteq> [] \<Longrightarrow> hd userId \<noteq> CHR ''{'' \<Longrightarrow> render_user uid prof \<noteq> userId"
  by (cases userId) (auto simp add: render_user_def)

text \<open>
  After \<open>populate\<close> no receipt renders as an id, so the filter selects every message,
  read or not.
\<close>

lemma populated_receipts_never_match:
  assumes "list_all (\<lambda>read. case rr_user read of Populated uid prof \<Rightarrow> True
                              | Ref uid \<Rightarrow> False | Missing uid \<Rightarrow> False) rs"
    and "userId \<noteq> []" and "hd userId \<noteq> CHR ''{''"
  shows "some_receipt_of userId rs = Inr False"
  using assms(1)
proof (induction rs)
  case Nil
  then show ?case by simp
next
  case (Cons r rs)
  then obtain uid prof where "rr_user r = Populated uid prof"
    by (cases "rr_user r") simp_all
  with Cons render_user_not_id [OF assms(2,3)] show ?case
    by (simp add: ref_toString_def)
qed

text \<open>
  Claim C5. The one caller of \<open>markAsRead\<close>, the handler of
  \<open>GET /:chatId/messages\<close>, loads the chat with the users of its receipts populated.
  Then no receipt compares equal to the id of the user, and every message counts as
  unread on every call. In the example bob has read the first of two messages. His first
  request is answered with 200 and adds a receipt of bob to both messages, so the first
  message holds two of his; each pushed receipt has its own reading of the clock. A second
  request straight after, with no new message in between, finds two unread messages
  again, not none, and adds two more receipts.
\<close>

theorem getChatMessages_marks_again:
  "map readers (messages example_chat) = [ [''alice'', ''bob''], [''alice''] ]
   \<and> status (fst (getChatMessages example_clock example_users ''bob'' 0 example_store)) = 200
   \<and> map_option (map readers \<circ> messages) (findById 0 example_store_read_once) =
       Some [ [''alice'', ''bob'', ''bob''], [''alice'', ''bob''] ]
   \<and> map_option (map (map rr_readAt \<circ> readBy) \<circ> messages) (findById 0 example_store_read_once) =
       Some [ [10, 12, 1001], [20, 1003] ]
   \<and> map_option (\<lambda>c. map_sum (\<lambda>e. e) snd (markAsRead example_clock ''bob'' (populate_readBy example_users c)))
        (findById 0 example_store_read_once) = Some (Inr 2)
   \<and> map_option (map readers \<circ> messages) (findById 0 example_store_read_twice) =
       Some [ [''alice'', ''bob'', ''bob'', ''bob''], [''alice'', ''bob'', ''bob''] ]"
  by code_simp

section \<open>Appending a message\<close>

lemma chat_schema_ok_append:
  "chat_schema_ok c \<Longrightarrow> message_schema_ok m \<Longrightarrow>
   chat_schema_ok (c\<lparr> messages := messages c @ [m], lastMessage := lm \<rparr>)"
  by (simp add: chat_schema_ok_def)

text \<open>
  Claim C2, amended. For a chat that satisfies its schema, any sender, any attachments
  and a content that is not empty, \<open>addMessage\<close> appends the message at the end of the
  log, read by the sender alone, returns it, and sets \<open>lastMessage\<close> to the content and
  the sender of the message. The timestamp of \<open>lastMessage\<close> is a reading of the clock
  of its own, taken after the one of the message: the two are equal exactly when the
  clock has not advanced in between.
\<close>

theorem addMessage_appends_nonempty_content:
  assumes "chat_schema_ok c" and "cont \<noteq> []"
  shows "\<exists>c' m lm. addMessage mid t_created t_read t_last senderId cont atts gl c = Inr (c', m)
           \<and> messages c' = messages c @ [m]
           \<and> sender m = senderId \<and> content m = cont \<and> attachments m = atts
           \<and> createdAt m = t_created \<and> is_read_by senderId m = Inr True
           \<and> lastMessage c' = Some lm
           \<and> lm_content lm = content m \<and> lm_sender lm = sender m \<and> lm_createdAt lm = t_last
           \<and> (lm_createdAt lm = createdAt m) = (t_last = t_created)
           \<and> chat_id c' = chat_id c \<and> participants c' = participants c"
proof -
  let ?m = "\<lparr> msg_id = mid, sender = senderId, content = cont,
              githubLink = map_option trim (or_null gl), attachments = atts,
              readBy = [\<lparr> rr_user = Ref senderId, rr_readAt = t_read \<rparr>],
              createdAt = t_created \<rparr>"
  let ?lm = "\<lparr> lm_content = cont, lm_sender = senderId, lm_createdAt = t_last,
               lm_hasAttachments = Some (length atts > 0), lm_githubLink = or_null gl \<rparr>"
  let ?c' = "c\<lparr> messages := messages c @ [?m], lastMessage := Some ?lm \<rparr>"
  have ok: "chat_schema_ok ?c'"
    using assms by (intro chat_schema_ok_append) (simp_all add: message_schema_ok_def)
  have res: "addMessage mid t_created t_read t_last senderId cont atts gl c = Inr (?c', ?m)"
    using ok by (simp add: addMessage_def Let_def save_def)
  have rd: "is_read_by senderId ?m = Inr True"
    by (simp add: is_read_by_def ref_toString_def)
  show ?thesis
    apply (rule exI [of _ ?c'], rule exI [of _ ?m], rule exI [of _ ?lm])
    using res rd by simp
qed

theorem addMessage_witness:
  "chat_schema_ok example_chat \<and> js ''on my way'' \<noteq> []
   \<and> (\<exists>c' m lm.
          addMessage 3 30 30 30 ''bob'' (js ''on my way'') [example_image] None example_chat = Inr (c', m)
          \<and> messages c' = messages example_chat @ [m]
          \<and> content m = js ''on my way'' \<and> is_read_by ''bob'' m = Inr True
          \<and> lastMessage c' = Some lm
          \<and> lm_content lm = js ''on my way'' \<and> lm_sender lm = ''bob''
          \<and> lm_createdAt lm = createdAt m)"
proof -
  have ok: "chat_schema_ok example_chat"
    by (simp add: example_chat_def chat_schema_ok_def message_schema_ok_def js_def)
  have ne: "js ''on my way'' \<noteq> []" by (simp add: js_def)
  from addMessage_appends_nonempty_content [OF ok ne, of 3 30 30 30 "''bob''" "[example_image]" None]
  obtain c' m lm where r:
    "addMessage 3 30 30 30 ''bob'' (js ''on my way'') [example_image] None example_chat = Inr (c', m)"
    "messages c' = messages example_chat @ [m]" "content m = js ''on my way''"
    "is_read_by ''bob'' m = Inr True" "lastMessage c' = Some lm"
    "lm_content lm = content m" "lm_sender lm = sender m" "sender m = ''bob''"
    "lm_createdAt lm = 30" "createdAt m = 30"
    by blast
  then have "\<exists>c' m lm.
          addMessage 3 30 30 30 ''bob'' (js ''on my way'') [example_image] None example_chat = Inr (c', m)
          \<and> messages c' = messages example_chat @ [m]
          \<and> content m = js ''on my way'' \<and> is_read_by ''bob'' m = Inr True
          \<and> lastMessage c' = Some lm
          \<and> lm_content lm = js ''on my way'' \<and> lm_sender lm = ''bob''
          \<and> lm_createdAt lm = createdAt m"
    by (intro exI [of _ c'] exI [of _ m] exI [of _ lm]) simp
  with ok ne show ?thesis by simp
qed

text \<open>
  The claim as stated fails twice: an empty content is rejected by the schema even with an
  attachment, and with the clock at 1000 for the message and at 1001 for \<open>lastMessage\<close>
  the two timestamps differ.
\<close>

theorem addMessage_counterexample:
  "isl (addMessage 3 30 30 30 ''bob'' [] [example_image] None example_chat)
   \<and> map_option lm_createdAt
        (lastMessage (fst (projr
           (addMessage 3 1000 1000 1001 ''bob'' (js ''on my way'') [] None example_chat))))
       = Some 1001
   \<and> createdAt (snd (projr
         (addMessage 3 1000 1000 1001 ''bob'' (js ''on my way'') [] None example_chat)))
       = 1000"
  by (simp add: addMessage_def Let_def save_def chat_schema_ok_def message_schema_ok_def
      example_chat_def js_def)

lemma addMessage_empty_content:
  "addMessage mid t_created t_read t_last senderId [] atts gl c = Inl ValidationError"
  by (simp add: addMessage_def Let_def save_def chat_schema_ok_def message_schema_ok_def)

section \<open>Direct chats\<close>

lemma direct_query_participants:
  assumes "direct_query a b c" and "a \<noteq> b"
  shows "set (participants c) = {a, b}"
proof -
  from assms(1) have len: "length (participants c) = 2"
    and a: "a \<in> set (participants c)" and b: "b \<in> set (participants c)"
    by (simp_all add: direct_query_def)
  from len obtain x y where xy: "participants c = [x, y]"
    by (cases "participants c"; simp) (metis (no_types) Suc_length_conv length_0_conv)
  with a b assms(2) show ?thesis by auto
qed

lemma find_append_not: 
  "\<forall>d \<in> set xs. \<not> P d \<Longrightarrow> find P (xs @ ys) = find P ys"
  by (induction xs) auto

lemma getOrCreateDirectChat_found:
  "findOne_direct a b s = Some c \<Longrightarrow> getOrCreateDirectChat a b s = (c, s)"
  by (simp add: getOrCreateDirectChat_def)

lemma getOrCreateDirectChat_then_found:
  assumes "getOrCreateDirectChat a b s = (c, s')"
  shows "findOne_direct a b s' = Some c"
proof (cases "findOne_direct a b s")
  case (Some d)
  with assms show ?thesis by (simp add: getOrCreateDirectChat_def)
next
  case None
  then have none: "\<forall>d \<in> set (chats s). \<not> direct_query a b d"
    by (simp add: findOne_direct_def find_None_iff)
  from None assms have c: "c = \<lparr> chat_id = next_id s, ctype = Direct, participants = [a, b],
                project = None, messages = [], lastMessage = None \<rparr>"
    and s': "s' = s\<lparr> chats := chats s @ [c], next_id := Suc (next_id s) \<rparr>"
    by (auto simp add: getOrCreateDirectChat_def create_direct_def Let_def)
  have q: "direct_query a b c" by (simp add: c direct_query_def)
  have "find (direct_query a b) (chats s @ [c]) = Some c"
    using q by (simp add: find_append_not [OF none])
  then show ?thesis by (simp add: findOne_direct_def s')
qed

lemma getOrCreateDirectChat_count:
  assumes "getOrCreateDirectChat a b s = (c, s')"
  shows "length (filter (direct_query a b) (chats s')) =
         max 1 (length (filter (direct_query a b) (chats s)))"
proof (cases "findOne_direct a b s")
  case (Some d)
  then have "d \<in> set (chats s)" "direct_query a b d"
    by (auto simp add: findOne_direct_def find_Some_iff)
  then have "filter (direct_query a b) (chats s) \<noteq> []"
    by (auto simp add: filter_empty_conv)
  then have "1 \<le> length (filter (direct_query a b) (chats s))"
    by (cases "filter (direct_query a b) (chats s)") simp_all
  moreover from Some assms have "s' = s" by (simp add: getOrCreateDirectChat_def)
  ultimately show ?thesis by simp
next
  case None
  then have none: "\<forall>d \<in> set (chats s). \<not> direct_query a b d"
    by (simp add: findOne_direct_def find_None_iff)
  then have empty: "filter (direct_query a b) (chats s) = []"
    by (simp add: filter_empty_conv)
  from None assms have s': "chats s' = chats s @ [\<lparr> chat_id = next_id s, ctype = Direct, participants = [a, b],
                project = None, messages = [], lastMessage = None \<rparr>]"
    by (auto simp add: getOrCreateDirectChat_def create_direct_def Let_def)
  show ?thesis by (simp add: s' empty direct_query_def)
qed

lemma calls_in_sequence_found:
  "findOne_direct a b s = Some c \<Longrightarrow> calls_in_sequence n a b s = (replicate n (chat_id c), s)"
  by (induction n) (simp_all add: getOrCreateDirectChat_found)

text \<open>A call that is scheduled twice in a row is the uninterrupted function.\<close>

lemma run_to_completion:
  "run_schedule [0, 0] ([Pending a b], s) =
     ([Returned (chat_id (fst (getOrCreateDirectChat a b s)))], snd (getOrCreateDirectChat a b s))"
  by (cases "findOne_direct a b s")
     (simp_all add: getOrCreateDirectChat_def create_direct_def Let_def)

text \<open>
  Claim C1, amended. For two different users, \<open>n > 0\<close> calls of
  \<open>getOrCreateDirectChat\<close> that run one after the other all return the id of the same
  direct chat, whose participants are exactly the two users; the calls add a chat only
  when the collection had none for the pair, so a collection without one holds exactly
  one afterwards.
\<close>

theorem sequential_calls_one_direct_chat:
  assumes "user1Id \<noteq> user2Id" and "0 < n"
    and "calls_in_sequence n user1Id user2Id s = (ids, s')"
  shows "\<exists>c. c \<in> set (chats s') \<and> ctype c = Direct
            \<and> set (participants c) = {user1Id, user2Id} \<and> length (participants c) = 2
            \<and> ids = replicate n (chat_id c)
            \<and> length (filter (direct_query user1Id user2Id) (chats s')) =
                max 1 (length (filter (direct_query user1Id user2Id) (chats s)))"
proof -
  from assms(2) obtain k where n: "n = Suc k" by (cases n) auto
  obtain c s1 where first: "getOrCreateDirectChat user1Id user2Id s = (c, s1)"
    by (cases "getOrCreateDirectChat user1Id user2Id s")
  have found: "findOne_direct user1Id user2Id s1 = Some c"
    by (rule getOrCreateDirectChat_then_found [OF first])
  have rest: "calls_in_sequence k user1Id user2Id s1 = (replicate k (chat_id c), s1)"
    by (rule calls_in_sequence_found [OF found])
  from assms(3) first rest have ids: "ids = replicate n (chat_id c)" and s': "s' = s1"
    by (simp_all add: n)
  from found have mem: "c \<in> set (chats s1)" and q: "direct_query user1Id user2Id c"
    by (auto simp add: findOne_direct_def find_Some_iff)
  have parts: "set (participants c) = {user1Id, user2Id}"
    by (rule direct_query_participants [OF q assms(1)])
  from q have ty: "ctype c = Direct" and len: "length (participants c) = 2"
    by (simp_all add: direct_query_def)
  have cnt: "length (filter (direct_query user1Id user2Id) (chats s1)) =
                max 1 (length (filter (direct_query user1Id user2Id) (chats s)))"
    by (rule getOrCreateDirectChat_count [OF first])
  from mem ty parts len ids cnt s' show ?thesis by blast
qed

theorem sequential_calls_witness:
  "''alice'' \<noteq> ''bob'' \<and> (0::nat) < 3
   \<and> calls_in_sequence 3 ''alice'' ''bob'' empty_store =
        ([0, 0, 0], \<lparr> chats = [direct_chat 0 ''alice'' ''bob''], next_id = 1 \<rparr>)
   \<and> length (filter (direct_query ''alice'' ''bob'') [direct_chat 0 ''alice'' ''bob'']) = 1"
proof -
  have ne: "''alice'' \<noteq> ''bob''" by simp
  have pos: "(0::nat) < 3" by simp
  have run: "calls_in_sequence 3 ''alice'' ''bob'' empty_store =
        ([0, 0, 0], \<lparr> chats = [direct_chat 0 ''alice'' ''bob''], next_id = 1 \<rparr>)"
    by (simp add: numeral_3_eq_3 getOrCreateDirectChat_def findOne_direct_def create_direct_def
        direct_query_def empty_store_def direct_chat_def Let_def)
  from sequential_calls_one_direct_chat [OF ne pos run]
  have "length (filter (direct_query ''alice'' ''bob'') [direct_chat 0 ''alice'' ''bob'']) = 1"
    by (auto simp add: empty_store_def)
  with ne pos run show ?thesis by simp
qed

text \<open>
  The function is a \<open>findOne\<close> followed by a \<open>create\<close>, not one atomic operation. When
  two calls for the same pair both run their \<open>findOne\<close> before either runs its
  \<open>create\<close>, two direct chats are persisted and the calls return different ids. And the
  query of a user paired with themselves matches a direct chat of this user with anybody.
\<close>

theorem concurrent_calls_counterexample:
  "run_schedule [0, 1, 0, 1]
      ([Pending ''alice'' ''bob'', Pending ''alice'' ''bob''], empty_store) =
     ([Returned 0, Returned 1],
      \<lparr> chats = [direct_chat 0 ''alice'' ''bob'', direct_chat 1 ''alice'' ''bob''], next_id = 2 \<rparr>)
   \<and> length (filter (direct_query ''alice'' ''bob'')
               [direct_chat 0 ''alice'' ''bob'', direct_chat 1 ''alice'' ''bob'']) = 2
   \<and> getOrCreateDirectChat ''alice'' ''alice''
        \<lparr> chats = [direct_chat 0 ''alice'' ''carol''], next_id = 1 \<rparr> =
       (direct_chat 0 ''alice'' ''carol'', \<lparr> chats = [direct_chat 0 ''alice'' ''carol''], next_id = 1 \<rparr>)"
  by (simp add: getOrCreateDirectChat_def findOne_direct_def create_direct_def
      direct_query_def empty_store_def direct_chat_def Let_def)

section \<open>Participants\<close>

lemma findById_Some: "findById i s = Some c \<Longrightarrow> c \<in> set (chats s) \<and> chat_id c = i"
  by (auto simp add: findById_def find_Some_iff)

lemma chat_schema_ok_participants:
  "chat_schema_ok (c\<lparr> participants := ps \<rparr>) = chat_schema_ok c"
  by (simp add: chat_schema_ok_def)

lemma findById_persist:
  assumes "findById i s = Some c" and "chat_id c' = i"
  shows "findById i (persist c' s) = Some c'"
proof -
  have "find (\<lambda>c. chat_id c = i) (map (\<lambda>d. if chat_id d = i then c' else d) xs) = Some c'"
    if "find (\<lambda>c. chat_id c = i) xs = Some c" for xs
    using that assms(2) by (induction xs) (auto split: if_splits)
  with assms show ?thesis by (simp add: findById_def persist_def)
qed

text \<open>
  Claim C4, amended. The two controllers do not look at the type of the chat. On every
  chat that is found and satisfies its schema, of type project or direct alike,
  \<open>addChatParticipant\<close> appends a user who is not a participant and answers 200, answers
  400 without a change for a user who is one, and \<open>removeChatParticipant\<close> removes the
  user and answers 200.
\<close>

theorem participants_change_on_any_chat_type:
  assumes "findById chatId s = Some c" and "chat_schema_ok c"
  shows "(userId \<notin> set (participants c) \<longrightarrow>
            addChatParticipant chatId userId s =
              (\<lparr> status = 200, body = ChatBody (c\<lparr> participants := participants c @ [userId] \<rparr>) \<rparr>,
               persist (c\<lparr> participants := participants c @ [userId] \<rparr>) s))
       \<and> (userId \<in> set (participants c) \<longrightarrow>
            addChatParticipant chatId userId s =
              (\<lparr> status = 400, body = ErrorBody ''User is already a participant'' \<rparr>, s))
       \<and> removeChatParticipant chatId userId s =
            (\<lparr> status = 200,
               body = ChatBody (c\<lparr> participants := filter (\<lambda>p. p \<noteq> userId) (participants c) \<rparr>) \<rparr>,
             persist (c\<lparr> participants := filter (\<lambda>p. p \<noteq> userId) (participants c) \<rparr>) s)"
  using assms
  by (simp add: addChatParticipant_def removeChatParticipant_def save_def
      chat_schema_ok_participants list_ex_iff)

theorem participants_witness:
  "findById 1 example_store = Some example_project_chat \<and> chat_schema_ok example_project_chat
   \<and> fst (addChatParticipant 1 ''bob'' example_store) =
        \<lparr> status = 200, body = ChatBody (example_project_chat\<lparr> participants := [''alice'', ''bob''] \<rparr>) \<rparr>
   \<and> status (fst (addChatParticipant 1 ''alice'' example_store)) = 400
   \<and> fst (removeChatParticipant 1 ''alice'' example_store) =
        \<lparr> status = 200, body = ChatBody (example_project_chat\<lparr> participants := [] \<rparr>) \<rparr>"
proof -
  have f: "findById 1 example_store = Some example_project_chat"
    by (simp add: findById_def example_store_def example_chat_def example_project_chat_def)
  have ok: "chat_schema_ok example_project_chat"
    by (simp add: chat_schema_ok_def example_project_chat_def)
  have p: "participants example_project_chat = [''alice'']"
    by (simp add: example_project_chat_def)
  from participants_change_on_any_chat_type [OF f ok, of "''bob''"]
    participants_change_on_any_chat_type [OF f ok, of "''alice''"]
  show ?thesis using f ok by (simp add: p)
qed

text \<open>
  On the direct chat of alice and bob, adding carol and removing bob both answer 200 and
  change the participants.
\<close>

theorem direct_participants_counterexample:
  "findById 0 example_store = Some example_chat \<and> ctype example_chat = Direct
   \<and> participants example_chat = [''alice'', ''bob'']
   \<and> status (fst (addChatParticipant 0 ''carol'' example_store)) = 200
   \<and> map_option participants (findById 0 (snd (addChatParticipant 0 ''carol'' example_store)))
       = Some [''alice'', ''bob'', ''carol'']
   \<and> status (fst (removeChatParticipant 0 ''bob'' example_store)) = 200
   \<and> map_option participants (findById 0 (snd (removeChatParticipant 0 ''bob'' example_store)))
       = Some [''alice'']"
  by (simp add: addChatParticipant_def removeChatParticipant_def findById_def persist_def save_def
      chat_schema_ok_def message_schema_ok_def js_def example_store_def example_chat_def
      example_project_chat_def)

section \<open>Project progress\<close>

lemma or_zero_id: "or_zero n = n"
  by (simp add: or_zero_def)

lemma foldl_plus_sum_list:
  "foldl (\<lambda>sum x. sum + f x) a xs = a + sum_list (map f xs)" for a :: int
  by (induction xs arbitrary: a) simp_all

lemma totalPercentage_sum_list:
  "totalPercentage subs = sum_list (map sub_completionPercentage subs)"
  by (simp add: totalPercentage_def or_zero_id foldl_plus_sum_list)

lemma sum_list_mset_cong:
  "mset xs = mset ys \<Longrightarrow> sum_list xs = sum_list ys" for xs :: "int list"
  by (metis sum_mset_sum_list)

lemma Math_round_nearest: "\<bar>of_int (Math_round x) - x\<bar> \<le> 1 / 2"
  unfolding Math_round_def by linarith

lemma Math_round_div:
  assumes "0 < b"
  shows "Math_round (of_int a / of_int b) = (2 * a + b) div (2 * b)"
proof -
  have "of_int a / of_int b + 1 / 2 = (of_int (2 * a + b) / of_int (2 * b) :: rat)"
    using assms by (simp add: field_simps)
  then show ?thesis
    by (simp only: Math_round_def floor_divide_of_int_eq)
qed

lemma hd_sort_latest_first:
  assumes "subs \<noteq> []"
  shows "sub_submittedAt (hd (sort_latest_first subs)) = Max (sub_submittedAt ` set subs)"
proof -
  let ?f = "\<lambda>sub. - int (sub_submittedAt sub)"
  let ?ys = "sort_key ?f subs"
  have ne: "?ys \<noteq> []" using assms by (metis length_0_conv length_sort)
  then obtain y ys where ys: "?ys = y # ys" by (cases ?ys) auto
  have srt: "sorted (map ?f ?ys)" by (rule sorted_sort_key)
  have set_eq: "set ?ys = set subs" by simp
  have y_in: "y \<in> set subs" using ys set_eq by (metis list.set_intros(1))
  have "\<forall>z \<in> set subs. sub_submittedAt z \<le> sub_submittedAt y"
  proof
    fix z assume "z \<in> set subs"
    then have "z \<in> set (y # ys)" using set_eq ys by simp
    then have "?f y \<le> ?f z" using srt ys by auto
    then show "sub_submittedAt z \<le> sub_submittedAt y" by simp
  qed
  then have "Max (sub_submittedAt ` set subs) = sub_submittedAt y"
    using y_in by (intro Max_eqI) auto
  then show ?thesis by (simp add: sort_latest_first_def ys)
qed

lemma progress_of_percentages:
  assumes "moduleSubmissions p \<noteq> []"
  shows "pd_completionPercentage (progressData now p) =
         Math_round (of_int (sum_list (map sub_completionPercentage (moduleSubmissions p)))
                     / of_int (int (length (moduleSubmissions p))))"
  using assms by (simp add: progressData_def Let_def totalPercentage_sum_list)

lemma progress_mset:
  assumes "mset (map sub_completionPercentage (moduleSubmissions q)) =
           mset (map sub_completionPercentage (moduleSubmissions p))"
  shows "pd_completionPercentage (progressData now' q) = pd_completionPercentage (progressData now p)"
proof (cases "moduleSubmissions p = []")
  case True
  with assms have "moduleSubmissions q = []" by simp
  with True show ?thesis by (simp add: progressData_def)
next
  case False
  with assms have q: "moduleSubmissions q \<noteq> []" by auto
  have len: "length (moduleSubmissions q) = length (moduleSubmissions p)"
    using assms by (metis length_map size_mset)
  have sm: "sum_list (map sub_completionPercentage (moduleSubmissions q)) =
            sum_list (map sub_completionPercentage (moduleSubmissions p))"
    by (rule sum_list_mset_cong [OF assms])
  show ?thesis
    by (simp only: progress_of_percentages [OF False] progress_of_percentages [OF q] len sm)
qed

text \<open>
  Claim C3. For a project with module submissions, the completion percentage of
  \<open>progressData\<close> is the mean of the percentages of all submissions rounded to a
  nearest integer; it depends on the percentages only as a multiset, so it is the same
  for every order of the submissions, and it is 60 for 20, 60 and 100 in any order; and
  \<open>lastUpdated\<close> is the latest submission time, wherever that submission stands in the
  array.
\<close>

theorem progressData_mean_any_order_latest:
  assumes "moduleSubmissions p \<noteq> []"
  shows "\<bar>of_int (pd_completionPercentage (progressData now p))
           - of_int (sum_list (map sub_completionPercentage (moduleSubmissions p)))
             / (of_nat (length (moduleSubmissions p)) :: rat)\<bar> \<le> 1 / 2
       \<and> (\<forall>(q :: project) now'. mset (map sub_completionPercentage (moduleSubmissions q)) =
                    mset (map sub_completionPercentage (moduleSubmissions p))
              \<longrightarrow> pd_completionPercentage (progressData now' q) =
                  pd_completionPercentage (progressData now p))
       \<and> (mset (map sub_completionPercentage (moduleSubmissions p)) = {#20, 60, 100#}
              \<longrightarrow> pd_completionPercentage (progressData now p) = 60)
       \<and> pd_lastUpdated (progressData now p) = Max (sub_submittedAt ` set (moduleSubmissions p))"
proof (intro conjI allI impI)
  show "\<bar>of_int (pd_completionPercentage (progressData now p))
           - of_int (sum_list (map sub_completionPercentage (moduleSubmissions p)))
             / (of_nat (length (moduleSubmissions p)) :: rat)\<bar> \<le> 1 / 2"
    using Math_round_nearest by (simp add: progress_of_percentages [OF assms])
next
  fix q :: project and now' :: timestamp
  assume "mset (map sub_completionPercentage (moduleSubmissions q)) =
          mset (map sub_completionPercentage (moduleSubmissions p))"
  then show "pd_completionPercentage (progressData now' q) =
             pd_completionPercentage (progressData now p)"
    by (rule progress_mset)
next
  assume m: "mset (map sub_completionPercentage (moduleSubmissions p)) = {#20, 60, 100#}"
  have "mset (map sub_completionPercentage (moduleSubmissions p)) = mset [20, 60, 100]"
    using m by simp
  then have "sum_list (map sub_completionPercentage (moduleSubmissions p)) = sum_list [20, 60, 100]"
    by (rule sum_list_mset_cong)
  then have sm: "sum_list (map sub_completionPercentage (moduleSubmissions p)) = 180"
    by simp
  have "size (mset (map sub_completionPercentage (moduleSubmissions p))) = 3"
    using m by simp
  then have len: "length (moduleSubmissions p) = 3" by simp
  show "pd_completionPercentage (progressData now p) = 60"
    using Math_round_div [of 3 180] by (simp add: progress_of_percentages [OF assms] sm len)
next
  show "pd_lastUpdated (progressData now p) = Max (sub_submittedAt ` set (moduleSubmissions p))"
    using assms by (simp add: progressData_def Let_def hd_sort_latest_first)
qed

theorem progressData_witness:
  "moduleSubmissions three_module_project \<noteq> []
   \<and> map sub_completionPercentage (moduleSubmissions three_module_project) = [100, 20, 60]
   \<and> map sub_submittedAt (moduleSubmissions three_module_project) = [30, 50, 10]
   \<and> pd_completionPercentage (progressData 99 three_module_project) = 60
   \<and> pd_lastUpdated (progressData 99 three_module_project) = 50"
proof -
  have ne: "moduleSubmissions three_module_project \<noteq> []"
    by (simp add: three_module_project_def)
  have pcts: "map sub_completionPercentage (moduleSubmissions three_module_project) = [100, 20, 60]"
    by (simp add: three_module_project_def example_submission_def)
  have times: "map sub_submittedAt (moduleSubmissions three_module_project) = [30, 50, 10]"
    by (simp add: three_module_project_def example_submission_def)
  have ms: "mset (map sub_completionPercentage (moduleSubmissions three_module_project)) = {#20, 60, 100#}"
    by (simp add: pcts)
  have mx: "Max (sub_submittedAt ` set (moduleSubmissions three_module_project)) = 50"
    by (simp add: three_module_project_def example_submission_def)
  from progressData_mean_any_order_latest [OF ne, of 99] ms mx
  have "pd_completionPercentage (progressData 99 three_module_project) = 60"
    and "pd_lastUpdated (progressData 99 three_module_project) = 50"
    by simp_all
  with ne pcts times show ?thesis by simp
qed

section \<open>Module submission\<close>

lemma trim_Nil: "trim [] = []"
  by (simp add: trim_def)

lemma parseInt_Nil: "parseInt [] = None"
  by (simp add: parseInt_def)

lemma module_message_content_nonempty: "module_message_content title percentage gl \<noteq> []"
  by (simp add: module_message_content_def js_def)

lemma description_or_empty:
  "(if truthy d then trim (the d) else []) = (case d of None \<Rightarrow> [] | Some x \<Rightarrow> trim x)"
  by (cases d) (simp_all add: truthy_def trim_Nil)

lemma project_schema_ok_append:
  "project_schema_ok p \<Longrightarrow> submission_schema_ok sub \<Longrightarrow>
   project_schema_ok (p\<lparr> moduleSubmissions := moduleSubmissions p @ [sub] \<rparr>)"
  by (simp add: project_schema_ok_def)

lemma averageProgress_append:
  "averageProgress (p\<lparr> moduleSubmissions := moduleSubmissions p @ [sub] \<rparr>) =
     Math_round (of_int (sum_list (map sub_completionPercentage (moduleSubmissions p))
                         + sub_completionPercentage sub)
                 / of_int (int (length (moduleSubmissions p)) + 1))"
  by (simp add: averageProgress_def totalPercentage_sum_list add.commute)

lemma progressData_averageProgress:
  "moduleSubmissions p \<noteq> [] \<Longrightarrow> pd_completionPercentage (progressData now p) = averageProgress p"
  by (simp add: progressData_def averageProgress_def Let_def)

text \<open>
  Claim C9, amended. Take a module submission whose title is not blank and whose
  percentage field parses to a number from 0 to 100, by the owner or a collaborator of a
  stored project that satisfies its schema and has a project chat that satisfies its
  schema. It is answered with 201. The submission is appended to the submissions of the
  project and persisted. The aggregate, the mean of the percentages of all submissions
  rounded to a nearest integer, is returned in the response as the completion percentage
  of the progress data. A message is appended to the chat of the project, read by the
  submitter, with one attachment of type module whose data are the title, the
  description, the percentage and the link of the submitted module itself, and
  \<open>lastMessage\<close> takes the content of this message. The message has no snapshot of the
  progress of the project and no deadline.
\<close>

theorem submit_module_appends_and_reports:
  assumes title: "mr_title req = Some title" "trim title \<noteq> []"
    and pct: "mr_completionPercentage req = Some pstr" "parseInt pstr = Some percentage"
      "0 \<le> percentage" "percentage \<le> 100"
    and proj: "find (\<lambda>p. proj_id p = pid \<and> (proj_owner p = user \<or> user \<in> set (proj_collaborators p)))
                 (projects db) = Some p" "project_schema_ok p"
    and chat: "find (\<lambda>c. ctype c = Project \<and> project c = Some pid) (chats (chat_store db)) = Some c"
      "chat_schema_ok c"
  shows
    "let link = (case mr_githubLink req of None \<Rightarrow> None | Some l \<Rightarrow> if l = [] then None else Some l);
         sub = \<lparr> sub_title = trim title,
                 sub_description = (case mr_description req of None \<Rightarrow> [] | Some d \<Rightarrow> trim d),
                 sub_githubLink = map_option trim link,
                 sub_files = map (\<lambda>f. \<lparr> sf_filename = up_originalname f, sf_path = up_path f,
                                          sf_mimetype = up_mimetype f, sf_size = up_size f \<rparr>)
                               (mr_files req),
                 sub_completionPercentage = percentage, sub_submittedBy = user,
                 sub_submittedAt = me_submittedAt env \<rparr>;
         text = js ''Module Submitted: '' @ title @ js '' ('' @ number_to_string percentage
                  @ js ''% complete)'' @ (if link = None then [] else js '' - View Repository'');
         att = \<lparr> att_type = Module, att_filename = None, att_path = None, att_mimetype = None,
                 att_size = None, att_language = None, att_preview = None,
                 att_moduleData = Some \<lparr> md_title = title, md_description = mr_description req,
                                          md_completionPercentage = percentage,
                                          md_githubLink = link \<rparr> \<rparr>;
         msg = \<lparr> msg_id = me_message_id env, sender = user, content = text,
                 githubLink = map_option trim link, attachments = [att],
                 readBy = [\<lparr> rr_user = Ref user, rr_readAt = me_readAt env \<rparr>],
                 createdAt = me_createdAt env \<rparr>;
         aggregate = \<lfloor>of_int (sum_list (map sub_completionPercentage (moduleSubmissions p)) + percentage)
                        / (of_nat (length (moduleSubmissions p) + 1) :: rat) + 1 / 2\<rfloor>
     in submit_module env user pid req db =
          (\<lparr> status = 201,
             body = ModuleSubmittedBody
                      \<lparr> cmv_id = me_message_id env, cmv_content = text, cmv_sender = user,
                        cmv_createdAt = me_createdAt env, cmv_githubLink = map_option trim link,
                        cmv_attachments = [att] \<rparr>
                      \<lparr> pv_id = pid, pv_name = proj_name p,
                        pv_progressData = \<lparr> pd_completionPercentage = aggregate,
                                            pd_lastUpdated = me_respondedAt env \<rparr> \<rparr> \<rparr>,
           db\<lparr> projects :=
                  replace_project (p\<lparr> moduleSubmissions := moduleSubmissions p @ [sub] \<rparr>) (projects db),
               chat_store :=
                  persist (c\<lparr> messages := messages c @ [msg],
                              lastMessage := Some \<lparr> lm_content = text, lm_sender = user,
                                                    lm_createdAt = me_lastMessageAt env,
                                                    lm_hasAttachments = None,
                                                    lm_githubLink = link \<rparr> \<rparr>)
                    (chat_store db) \<rparr>)
        \<and> \<bar>of_int aggregate
             - of_int (sum_list (map sub_completionPercentage (moduleSubmissions p)) + percentage)
               / (of_nat (length (moduleSubmissions p) + 1) :: rat)\<bar> \<le> 1 / 2"
proof -
  let ?link = "or_null (mr_githubLink req)"
  let ?sub = "\<lparr> sub_title = trim title,
                sub_description = (if truthy (mr_description req) then trim (the (mr_description req)) else []),
                sub_githubLink = map_option trim ?link,
                sub_files = map (\<lambda>f. \<lparr> sf_filename = up_originalname f, sf_path = up_path f,
                                         sf_mimetype = up_mimetype f, sf_size = up_size f \<rparr>) (mr_files req),
                sub_completionPercentage = percentage, sub_submittedBy = user,
                sub_submittedAt = me_submittedAt env \<rparr>"
  let ?p1 = "p\<lparr> moduleSubmissions := moduleSubmissions p @ [?sub] \<rparr>"
  let ?content = "module_message_content title percentage (mr_githubLink req)"
  let ?att = "\<lparr> att_type = Module, att_filename = None, att_path = None, att_mimetype = None,
                att_size = None, att_language = None, att_preview = None,
                att_moduleData =
                  Some \<lparr> md_title = title, md_description = mr_description req,
                         md_completionPercentage = percentage, md_githubLink = ?link \<rparr> \<rparr>"
  let ?m = "\<lparr> msg_id = me_message_id env, sender = user, content = ?content,
              githubLink = map_option trim ?link, attachments = [?att],
              readBy = [\<lparr> rr_user = Ref user, rr_readAt = me_readAt env \<rparr>],
              createdAt = me_createdAt env \<rparr>"
  let ?lm = "\<lparr> lm_content = ?content, lm_sender = user, lm_createdAt = me_lastMessageAt env,
               lm_hasAttachments = None, lm_githubLink = ?link \<rparr>"
  let ?c1 = "c\<lparr> messages := messages c @ [?m], lastMessage := Some ?lm \<rparr>"
  let ?db1 = "db\<lparr> projects := replace_project ?p1 (projects db) \<rparr>"
  have t1: "truthy (mr_title req)" "trim (the (mr_title req)) \<noteq> []"
    using title trim_Nil by (auto simp add: truthy_def)
  have t2: "mr_completionPercentage req \<noteq> None" "mr_completionPercentage req \<noteq> Some []"
    using pct(1,2) parseInt_Nil by auto
  have pid: "proj_id p = pid"
    using proj(1) by (auto simp add: find_Some_iff)
  have ok1: "project_schema_ok ?p1"
    using proj(2) title(2) pct(3,4)
    by (intro project_schema_ok_append) (simp_all add: submission_schema_ok_def)
  have ok2: "chat_schema_ok ?c1"
    using chat(2) module_message_content_nonempty
    by (intro chat_schema_ok_append) (simp_all add: message_schema_ok_def)
  have res: "submit_module env user pid req db =
     (\<lparr> status = 201,
        body = ModuleSubmittedBody
                 \<lparr> cmv_id = me_message_id env, cmv_content = ?content, cmv_sender = user,
                   cmv_createdAt = me_createdAt env, cmv_githubLink = map_option trim ?link,
                   cmv_attachments = [?att] \<rparr>
                 \<lparr> pv_id = pid, pv_name = proj_name p,
                   pv_progressData = \<lparr> pd_completionPercentage = averageProgress ?p1,
                                       pd_lastUpdated = me_respondedAt env \<rparr> \<rparr> \<rparr>,
      ?db1\<lparr> chat_store := persist ?c1 (chat_store db) \<rparr>)"
    using t1 t2 title(1) pct(1,2,3,4) proj(1) chat(1) ok1 ok2 pid
    by (simp add: submit_module_def Let_def save_project_def save_def
        progressData_averageProgress)
  have link: "?link = (case mr_githubLink req of None \<Rightarrow> None
                       | Some l \<Rightarrow> if l = [] then None else Some l)"
    by (simp add: or_null_def)
  have view: "truthy (mr_githubLink req) \<longleftrightarrow> ?link \<noteq> None"
    by (cases "mr_githubLink req") (simp_all add: truthy_def or_null_def)
  have content: "?content =
      js ''Module Submitted: '' @ title @ js '' ('' @ number_to_string percentage
        @ js ''% complete)'' @ (if ?link = None then [] else js '' - View Repository'')"
    using view by (simp add: module_message_content_def)
  have agg: "averageProgress ?p1 =
      \<lfloor>of_int (sum_list (map sub_completionPercentage (moduleSubmissions p)) + percentage)
         / (of_nat (length (moduleSubmissions p) + 1) :: rat) + 1 / 2\<rfloor>"
    by (simp add: averageProgress_append Math_round_def add.commute)
  have near: "\<bar>of_int \<lfloor>of_int (sum_list (map sub_completionPercentage (moduleSubmissions p)) + percentage)
                         / (of_nat (length (moduleSubmissions p) + 1) :: rat) + 1 / 2\<rfloor>
              - of_int (sum_list (map sub_completionPercentage (moduleSubmissions p)) + percentage)
                / (of_nat (length (moduleSubmissions p) + 1) :: rat)\<bar> \<le> 1 / 2"
    by linarith
  show ?thesis
    unfolding Let_def link [symmetric]
    using res near
    by (simp only: content [symmetric] agg [symmetric] description_or_empty [symmetric])
qed


lemma js_Nil_iff: "js s = [] \<longleftrightarrow> s = []"
  by (simp add: js_def)

lemma find_example_project:
  "find (\<lambda>p. proj_id p = ''p1'' \<and> (proj_owner p = ''bob'' \<or> ''bob'' \<in> set (proj_collaborators p)))
     (projects example_db) = Some example_project"
  by (simp add: example_db_def example_project_def)

lemma find_example_project_chat:
  "find (\<lambda>c. ctype c = Project \<and> project c = Some ''p1'') (chats (chat_store example_db))
     = Some example_project_chat"
  by (simp add: example_db_def example_store_def example_chat_def example_project_chat_def)

lemma example_project_ok: "project_schema_ok example_project"
  by (simp add: project_schema_ok_def submission_schema_ok_def example_project_def js_Nil_iff)

lemma example_project_chat_ok: "chat_schema_ok example_project_chat"
  by (simp add: chat_schema_ok_def example_project_chat_def)

lemma parseInt_80: "parseInt (js ''80'') = Some 80"
  by (simp add: parseInt_def is_space_def digit_value_def js_def Let_def)

lemma trim_Lexer: "trim (js ''Lexer'') = js ''Lexer''"
  by (simp add: trim_def is_space_def js_def)

lemma content_Lexer:
  "module_message_content (js ''Lexer'') 80 None = js ''Module Submitted: Lexer (80% complete)''"
  by (simp add: module_message_content_def number_to_string_def truthy_def js_def)

lemma Math_round_60: "Math_round 60 = 60"
  unfolding Math_round_def by linarith

lemmas example_submission_eval =
  submit_module_def Let_def save_project_def save_def truthy_def trim_Lexer
  parseInt_80 js_Nil_iff content_Lexer example_module_request_def example_db_def
  example_project_def example_store_def example_chat_def example_project_chat_def
  example_env_def project_schema_ok_def submission_schema_ok_def chat_schema_ok_def
  message_schema_ok_def or_null_def replace_project_def persist_def progressData_def
  totalPercentage_def or_zero_def Math_round_60

theorem submit_module_witness:
  "mr_title example_module_request = Some (js ''Lexer'') \<and> trim (js ''Lexer'') \<noteq> []
   \<and> mr_completionPercentage example_module_request = Some (js ''80'')
   \<and> parseInt (js ''80'') = Some 80
   \<and> find (\<lambda>p. proj_id p = ''p1'' \<and> (proj_owner p = ''bob'' \<or> ''bob'' \<in> set (proj_collaborators p)))
        (projects example_db) = Some example_project
   \<and> project_schema_ok example_project
   \<and> find (\<lambda>c. ctype c = Project \<and> project c = Some ''p1'') (chats (chat_store example_db))
        = Some example_project_chat
   \<and> chat_schema_ok example_project_chat
   \<and> status (fst (submit_module example_env ''bob'' ''p1'' example_module_request example_db)) = 201
   \<and> map (map sub_completionPercentage \<circ> moduleSubmissions)
        (projects (snd (submit_module example_env ''bob'' ''p1'' example_module_request example_db)))
       = [ [40, 80] ]
   \<and> map (map content \<circ> messages)
        (chats (chat_store (snd (submit_module example_env ''bob'' ''p1'' example_module_request
           example_db))))
       = [ [js ''hello'', js ''are you there?''], [js ''Module Submitted: Lexer (80% complete)''] ]"
proof -
  have a1: "mr_title example_module_request = Some (js ''Lexer'')"
    and a3: "mr_completionPercentage example_module_request = Some (js ''80'')"
    by (simp_all add: example_module_request_def)
  have a2: "trim (js ''Lexer'') \<noteq> []"
    by (simp add: trim_Lexer js_Nil_iff)
  have a5: "(0::int) \<le> 80" and a6: "(80::int) \<le> 100" by simp_all
  note t = submit_module_appends_and_reports
    [OF a1 a2 a3 parseInt_80 a5 a6 find_example_project example_project_ok
        find_example_project_chat example_project_chat_ok, of example_env, unfolded Let_def]
  from t have st: "status (fst (submit_module example_env ''bob'' ''p1'' example_module_request example_db)) = 201"
    by simp
  from t have subs: "map (map sub_completionPercentage \<circ> moduleSubmissions)
        (projects (snd (submit_module example_env ''bob'' ''p1'' example_module_request example_db)))
       = [ [40, 80] ]"
    by (simp add: replace_project_def example_db_def example_project_def)
  have msgs: "map (map content \<circ> messages)
        (chats (chat_store (snd (submit_module example_env ''bob'' ''p1'' example_module_request
           example_db))))
       = [ [js ''hello'', js ''are you there?''], [js ''Module Submitted: Lexer (80% complete)''] ]"
    by (simp add: example_submission_eval)
  from a1 a2 a3 parseInt_80 find_example_project example_project_ok
    find_example_project_chat example_project_chat_ok st subs msgs
  show ?thesis by simp
qed

text \<open>
  A project holds one submission of 40 percent and the stored completion percentage 0.
  After a submission of 80 percent the response reports the aggregate 60, the stored
  completion percentage of the project is still 0, and the message in the chat carries
  80 in its module data and nothing else about progress.
\<close>

theorem submit_module_counterexample:
  "map completionPercentage
        (projects (snd (submit_module example_env ''bob'' ''p1'' example_module_request example_db)))
       = [0]
   \<and> fst (submit_module example_env ''bob'' ''p1'' example_module_request example_db) =
       \<lparr> status = 201,
         body = ModuleSubmittedBody
           \<lparr> cmv_id = 7, cmv_content = js ''Module Submitted: Lexer (80% complete)'',
             cmv_sender = ''bob'', cmv_createdAt = 201, cmv_githubLink = None,
             cmv_attachments =
               [\<lparr> att_type = Module, att_filename = None, att_path = None, att_mimetype = None,
                  att_size = None, att_language = None, att_preview = None,
                  att_moduleData = Some \<lparr> md_title = js ''Lexer'', md_description = None,
                                           md_completionPercentage = 80, md_githubLink = None \<rparr> \<rparr>] \<rparr>
           \<lparr> pv_id = ''p1'', pv_name = js ''Compiler'',
             pv_progressData = \<lparr> pd_completionPercentage = 60, pd_lastUpdated = 203 \<rparr> \<rparr> \<rparr>
   \<and> map (map (map (map_option md_completionPercentage \<circ> att_moduleData) \<circ> attachments) \<circ> messages)
        (chats (chat_store (snd (submit_module example_env ''bob'' ''p1'' example_module_request
           example_db))))
       = [ [ [], [] ], [ [Some 80] ] ]"
  by (simp add: example_submission_eval)

text \<open>
  The hypotheses on the stored project and on the title are needed. Where the stored
  completion percentage is out of range, as the handler of \<open>POST /:chatId/messages\<close>
  can leave it, the save of the project is rejected and the submission is answered with
  500. A title of a no-break space and an ideographic space is blank and is answered
  with 400.
\<close>

lemma submit_module_invalid_project:
  "status (fst (submit_module example_env ''bob'' ''p1'' example_module_request
     (example_db\<lparr> projects := [example_project\<lparr> completionPercentage := 150 \<rparr>] \<rparr>))) = 500"
  by (simp add: example_submission_eval)

lemma submit_module_blank_title:
  "status (fst (submit_module example_env ''bob'' ''p1''
     (example_module_request\<lparr> mr_title := Some [0xA0, 0x3000] \<rparr>) example_db)) = 400"
  by (simp add: submit_module_def truthy_def trim_def is_space_def example_module_request_def)

section \<open>Sending a message\<close>

text \<open>The controller rejects a content that is absent or blank before it reads the chat.\<close>

lemma sendMessage_blank_rejected:
  assumes "cont = None \<or> trim (the cont) = []"
  shows "sendMessage mid t_created t_read t_last user chatId cont s =
           (\<lparr> status = 400, body = ErrorBody ''Message content is required'' \<rparr>, s)"
  using assms by (cases cont) (auto simp add: sendMessage_def)

text \<open>
  Claim C7. The mounted handler of \<open>POST /:chatId/messages\<close> has no such check. For an
  empty content without files, sent by a participant, it saves a message document with
  the empty content and does not answer 400 (the answer is 500, from the final save of
  the chat, which the schema of the embedded messages rejects).
\<close>

theorem post_message_empty_not_rejected:
  "list_ex (\<lambda>p. p = ''alice'') (participants example_project_chat)
   \<and> status (fst (post_message 300 301 302 ''alice'' 1 (Some []) [] None example_db)) \<noteq> 400
   \<and> message_docs (snd (post_message 300 301 302 ''alice'' 1 (Some []) [] None example_db)) =
       [\<lparr> doc_id = 3, doc_chat = 1, doc_sender = ''alice'', doc_content = [],
          doc_attachments = [], doc_projectProgress = None \<rparr>]
   \<and> message_docs example_db = []"
  by (simp add: post_message_def Let_def save_def findById_def trim_def
      message_doc_schema_ok_def chat_schema_ok_def message_schema_ok_def subdocument_of_id_def
      example_db_def example_store_def example_chat_def example_project_chat_def)

section \<open>Completion percentages\<close>

text \<open>
  Claim C8. The same handler passes the completion percentage of the request to
  \<open>findByIdAndUpdate\<close>, which does not validate: a request with 150 leaves 150 in the
  stored completion percentage of the project, although the save of the message is
  rejected afterwards.
\<close>

theorem post_message_percentage_out_of_range:
  "map completionPercentage (projects example_db) = [0]
   \<and> map completionPercentage
        (projects (snd (post_message 300 301 302 ''alice'' 1 (Some (js ''progress'')) []
           (Some \<lparr> pr_projectId = ''p1'', pr_completionPercentage = Some 150, pr_deadline = None \<rparr>)
           example_db)))
       = [150]"
  by (simp add: post_message_def Let_def save_def findById_def findByIdAndUpdate_def
      message_doc_schema_ok_def
      example_db_def example_store_def example_chat_def example_project_chat_def
      example_project_def)

section \<open>Admission to the gateway\<close>

lemma authenticateSocket_Inr:
  "authenticateSocket verify hs = Inr user \<longleftrightarrow>
     (\<exists>token. auth_token hs = Some token \<and> token \<noteq> [] \<and> verify token = Some user)"
  by (cases "auth_token hs")
     (auto simp add: authenticateSocket_def truthy_def split: option.splits)

lemma authenticateSocket_Inl:
  assumes "\<not> truthy (auth_token hs) \<or> verify (the (auth_token hs)) = None"
  shows "authenticateSocket verify hs =
           Inl (if \<not> truthy (auth_token hs) then ''Authentication error: No token provided''
                else ''Authentication error: Invalid token'')"
  using assms by (auto simp add: authenticateSocket_def)

lemma unauthenticated_step:
  assumes "unauthenticated conn"
    and "\<forall>hs user. ev = Connect hs \<longrightarrow> authenticateSocket verify hs \<noteq> Inr user"
  shows "unauthenticated (on_event verify conn ev)"
proof (cases ev)
  case (Connect hs)
  with assms show ?thesis
    by (cases "authenticateSocket verify hs")
       (auto simp add: unauthenticated_def split: phase.splits)
next
  case (Emit name room)
  with assms(1) show ?thesis by (auto simp add: unauthenticated_def split: phase.splits)
next
  case Disconnect
  with assms(1) show ?thesis by (auto simp add: unauthenticated_def split: phase.splits)
qed

lemma unauthenticated_foldl:
  assumes "unauthenticated conn"
    and "\<forall>hs user. Connect hs \<in> set evs \<longrightarrow> authenticateSocket verify hs \<noteq> Inr user"
  shows "unauthenticated (foldl (on_event verify) conn evs)"
  using assms
proof (induction evs arbitrary: conn)
  case Nil
  then show ?case by simp
next
  case (Cons ev evs)
  have "unauthenticated (on_event verify conn ev)"
    using Cons.prems by (intro unauthenticated_step) auto
  then show ?case using Cons.IH Cons.prems(2) by simp
qed

lemma refused_step: "phase conn = Refused err \<Longrightarrow> on_event verify conn ev = conn"
  by (cases ev) simp_all

lemma refused_foldl: "phase conn = Refused err \<Longrightarrow> foldl (on_event verify) conn evs = conn"
  by (induction evs) (simp_all add: refused_step)

text \<open>
  Claim C10. A handshake without a token, or with a token that \<open>jwt.verify\<close> rejects,
  is refused with an authentication error, and whatever the client sends afterwards the
  connection stays refused and no room is joined or left. A handshake with a token that
  verifies admits the connection as the decoded user. And along every sequence of events
  in which no handshake has verified, the server has performed no join and no leave.
\<close>

theorem room_operations_only_after_authentication:
  "(\<not> truthy (auth_token hs) \<or> verify (the (auth_token hs)) = None \<longrightarrow>
      (\<exists>err. authenticateSocket verify hs = Inl err
           \<and> take 21 err = ''Authentication error:''
           \<and> run_connection verify (Connect hs # evs) =
               \<lparr> phase = Refused err, rooms = [], room_ops = [] \<rparr>))
   \<and> (truthy (auth_token hs) \<and> verify (the (auth_token hs)) = Some user \<longrightarrow>
        run_connection verify [Connect hs] = \<lparr> phase = Admitted user, rooms = [], room_ops = [] \<rparr>)
   \<and> ((\<forall>h u. Connect h \<in> set evs' \<longrightarrow> authenticateSocket verify h \<noteq> Inr u) \<longrightarrow>
        rooms (run_connection verify evs') = [] \<and> room_ops (run_connection verify evs') = []
        \<and> (\<forall>u. phase (run_connection verify evs') \<noteq> Admitted u))"
proof -
  have refused: "\<exists>err. authenticateSocket verify hs = Inl err
           \<and> take 21 err = ''Authentication error:''
           \<and> run_connection verify (Connect hs # evs) =
               \<lparr> phase = Refused err, rooms = [], room_ops = [] \<rparr>"
    if bad: "\<not> truthy (auth_token hs) \<or> verify (the (auth_token hs)) = None"
  proof -
    let ?err = "if \<not> truthy (auth_token hs) then ''Authentication error: No token provided''
                else ''Authentication error: Invalid token''"
    have a: "authenticateSocket verify hs = Inl ?err"
      using bad by (rule authenticateSocket_Inl [of hs verify])
    have t: "take 21 ?err = ''Authentication error:''" by simp
    have first: "on_event verify new_connection (Connect hs) =
                   \<lparr> phase = Refused ?err, rooms = [], room_ops = [] \<rparr>"
      by (simp add: new_connection_def a)
    have "run_connection verify (Connect hs # evs) =
            \<lparr> phase = Refused ?err, rooms = [], room_ops = [] \<rparr>"
      unfolding run_connection_def foldl_Cons first
      by (rule refused_foldl) simp
    with a t show ?thesis by blast
  qed
  have admitted: "run_connection verify [Connect hs] =
                    \<lparr> phase = Admitted user, rooms = [], room_ops = [] \<rparr>"
    if "truthy (auth_token hs) \<and> verify (the (auth_token hs)) = Some user"
    using that by (simp add: run_connection_def new_connection_def authenticateSocket_def)
  have quiet: "rooms (run_connection verify evs') = [] \<and> room_ops (run_connection verify evs') = []
        \<and> (\<forall>u. phase (run_connection verify evs') \<noteq> Admitted u)"
    if none: "\<forall>h u. Connect h \<in> set evs' \<longrightarrow> authenticateSocket verify h \<noteq> Inr u"
  proof -
    have "unauthenticated new_connection"
      by (simp add: unauthenticated_def new_connection_def)
    then have "unauthenticated (run_connection verify evs')"
      unfolding run_connection_def using none by (rule unauthenticated_foldl)
    then show ?thesis by (auto simp add: unauthenticated_def split: phase.splits)
  qed
  from refused admitted quiet show ?thesis by blast
qed

theorem gateway_witness:
  "\<not> truthy (auth_token \<lparr> auth_token = None \<rparr>)
   \<and> run_connection example_verify
        [Connect \<lparr> auth_token = None \<rparr>, Emit ''join room'' ''chat1'', Emit ''leave room'' ''chat1''] =
       \<lparr> phase = Refused ''Authentication error: No token provided'', rooms = [], room_ops = [] \<rparr>
   \<and> truthy (auth_token \<lparr> auth_token = Some ''signed-for-alice'' \<rparr>)
   \<and> example_verify ''signed-for-alice'' = Some ''alice''
   \<and> run_connection example_verify [Connect \<lparr> auth_token = Some ''signed-for-alice'' \<rparr>] =
       \<lparr> phase = Admitted ''alice'', rooms = [], room_ops = [] \<rparr>
   \<and> authenticateSocket example_verify \<lparr> auth_token = Some ''forged'' \<rparr> =
       Inl ''Authentication error: Invalid token''
   \<and> room_ops (run_connection example_verify
        [Emit ''join room'' ''chat1'', Connect \<lparr> auth_token = Some ''forged'' \<rparr>,
         Emit ''join room'' ''chat1'']) = []
   \<and> run_connection example_verify
        [Connect \<lparr> auth_token = Some ''signed-for-alice'' \<rparr>, Emit ''join room'' ''chat1''] =
       \<lparr> phase = Admitted ''alice'', rooms = [''chat1''], room_ops = [Join ''chat1''] \<rparr>"
proof -
  let ?none = "\<lparr> auth_token = None \<rparr>"
  let ?good = "\<lparr> auth_token = Some ''signed-for-alice'' \<rparr>"
  let ?forged = "\<lparr> auth_token = Some ''forged'' \<rparr>"
  let ?evs = "[Emit ''join room'' ''chat1'', Emit ''leave room'' ''chat1'']"
  let ?evs' = "[Emit ''join room'' ''chat1'', Connect ?forged, Emit ''join room'' ''chat1'']"
  have h1: "\<not> truthy (auth_token ?none)" by (simp add: truthy_def)
  have h2: "truthy (auth_token ?good)" by (simp add: truthy_def)
  have h3: "example_verify ''signed-for-alice'' = Some ''alice''" by (simp add: example_verify_def)
  have forged: "authenticateSocket example_verify ?forged = Inl ''Authentication error: Invalid token''"
    by (simp add: authenticateSocket_def truthy_def example_verify_def)
  have h4: "\<forall>h u. Connect h \<in> set ?evs' \<longrightarrow> authenticateSocket example_verify h \<noteq> Inr u"
    using forged by simp
  have e: "authenticateSocket example_verify ?none = Inl ''Authentication error: No token provided''"
    by (simp add: authenticateSocket_def truthy_def)
  note t = room_operations_only_after_authentication
             [of ?none example_verify ?evs "''alice''" ?evs']
    room_operations_only_after_authentication
             [of ?good example_verify "[]" "''alice''" "[]"]
  from t(1) h1 h4 e have refused: "run_connection example_verify (Connect ?none # ?evs) =
       \<lparr> phase = Refused ''Authentication error: No token provided'', rooms = [], room_ops = [] \<rparr>"
    and quiet: "room_ops (run_connection example_verify ?evs') = []"
    by auto
  from t(2) h2 h3 have admitted: "run_connection example_verify [Connect ?good] =
       \<lparr> phase = Admitted ''alice'', rooms = [], room_ops = [] \<rparr>"
    by simp
  have joined: "run_connection example_verify [Connect ?good, Emit ''join room'' ''chat1''] =
       \<lparr> phase = Admitted ''alice'', rooms = [''chat1''], room_ops = [Join ''chat1''] \<rparr>"
    by (simp add: run_connection_def new_connection_def authenticateSocket_def truthy_def
        example_verify_def)
  from h1 refused h2 h3 admitted forged quiet joined show ?thesis by simp
qed

section \<open>Reconciling incoming messages\<close>

lemma has_prop_iff: "has_prop ob k \<longleftrightarrow> k \<in> fst ` set ob"
  by (simp add: has_prop_def map_of_eq_None_iff)

lemma map_of_replace:
  "map_of (map (\<lambda>kv. if fst kv = k then (k, v) else kv) ob) k' =
     (if k' = k then (if k \<in> fst ` set ob then Some v else None) else map_of ob k')"
proof (induction ob)
  case Nil
  then show ?case by simp
next
  case (Cons kv ob)
  have mem: "k \<in> fst ` set (kv # ob) \<longleftrightarrow> fst kv = k \<or> k \<in> fst ` set ob"
    by auto
  show ?case
    unfolding mem using Cons.IH by (cases kv) (simp split: if_splits)
qed

lemma get_prop_set_prop:
  "get_prop (set_prop k v ob) k' = (if k' = k then v else get_prop ob k')"
proof (cases "has_prop ob k")
  case True
  then show ?thesis
    by (simp add: get_prop_def set_prop_def map_of_replace has_prop_iff)
next
  case False
  then have "map_of ob k = None" by (simp add: has_prop_def)
  with False show ?thesis
    by (simp add: get_prop_def set_prop_def map_add_def split: option.splits)
qed

lemma has_prop_set_prop:
  "has_prop (set_prop k v ob) k' \<longleftrightarrow> k' = k \<or> has_prop ob k'"
proof (cases "has_prop ob k")
  case True
  then have "k \<in> fst ` set ob" by (simp add: has_prop_iff)
  with True show ?thesis
    by (auto simp add: set_prop_def has_prop_def map_of_replace)
next
  case False
  then show ?thesis
    by (auto simp add: set_prop_def has_prop_def map_add_def split: option.splits)
qed

lemma get_prop_absent: "\<not> has_prop ob k \<Longrightarrow> get_prop ob k = JUndefined"
  by (simp add: get_prop_def has_prop_def)

lemma get_prop_foldl:
  "get_prop (foldl (\<lambda>acc k. set_prop k (get_prop src k) acc) target ks) k' =
     (if k' \<in> set ks then get_prop src k' else get_prop target k')"
  by (induction ks arbitrary: target) (auto simp add: get_prop_set_prop)

lemma get_prop_spread:
  "get_prop (spread target src) k =
     (if has_prop src k then get_prop src k else get_prop target k)"
  by (simp add: spread_def get_prop_foldl keys_def has_prop_iff)

lemma strict_eq_eq: "strict_eq a b \<Longrightarrow> a = b"
  by (cases a) (simp_all add: strict_eq_def)

lemma strict_eq_sym: "strict_eq a b = strict_eq b a"
  by (cases a; cases b) (auto simp add: strict_eq_def)

lemma findIndex_None: "findIndex P xs = None \<longleftrightarrow> (\<forall>x \<in> set xs. \<not> P x)"
  by (simp add: findIndex_def list_ex_iff)

lemma length_takeWhile_lt:
  "\<exists>x \<in> set xs. \<not> Q x \<Longrightarrow> length (takeWhile Q xs) < length xs"
  by (induction xs) auto

lemma findIndex_Some:
  assumes "findIndex P xs = Some i"
  shows "i < length xs \<and> P (xs ! i) \<and> (\<forall>j < i. \<not> P (xs ! j))"
proof -
  from assms have ex: "\<exists>x \<in> set xs. P x" and i: "i = length (takeWhile (\<lambda>x. \<not> P x) xs)"
    by (auto simp add: findIndex_def list_ex_iff split: if_splits)
  from ex have lt: "i < length xs"
    unfolding i by (intro length_takeWhile_lt) simp
  have "P (xs ! i)"
    using lt nth_length_takeWhile [of "\<lambda>x. \<not> P x" xs] unfolding i by simp
  moreover have "\<forall>j < i. \<not> P (xs ! j)"
  proof (intro allI impI)
    fix j assume "j < i"
    then have "j < length (takeWhile (\<lambda>x. \<not> P x) xs)" by (simp add: i)
    then have "xs ! j \<in> set (takeWhile (\<lambda>x. \<not> P x) xs)"
      by (metis nth_mem takeWhile_nth)
    then show "\<not> P (xs ! j)" by (rule set_takeWhileD [THEN conjunct2])
  qed
  ultimately show ?thesis using lt by simp
qed

lemma findIndex_first:
  assumes "i < length xs" and "P (xs ! i)" and "\<forall>j < length xs. j \<noteq> i \<longrightarrow> \<not> P (xs ! j)"
  shows "findIndex P xs = Some i"
proof -
  have "findIndex P xs \<noteq> None"
    using assms(1,2) by (auto simp add: findIndex_None)
  then obtain k where k: "findIndex P xs = Some k" by auto
  from findIndex_Some [OF k] have "k < length xs" "P (xs ! k)" by simp_all
  with assms(3) have "k = i" by auto
  with k show ?thesis by simp
qed

lemma one_entry_per_id_nth:
  "one_entry_per_id ms \<longleftrightarrow>
     (\<forall>i < length ms. \<forall>j < length ms. i \<noteq> j \<longrightarrow>
        \<not> strict_eq (get_prop (ms ! i) ''_id'') (get_prop (ms ! j) ''_id''))"
proof (induction ms)
  case Nil
  then show ?case by simp
next
  case (Cons e es)
  show ?case
  proof
    assume lhs: "one_entry_per_id (e # es)"
    then have hd: "\<forall>e' \<in> set es. \<not> strict_eq (get_prop e ''_id'') (get_prop e' ''_id'')"
      and tl: "one_entry_per_id es"
      by (simp_all add: list_all_iff)
    show "\<forall>i < length (e # es). \<forall>j < length (e # es). i \<noteq> j \<longrightarrow>
        \<not> strict_eq (get_prop ((e # es) ! i) ''_id'') (get_prop ((e # es) ! j) ''_id'')"
    proof (intro allI impI)
      fix i j assume i: "i < length (e # es)" and j: "j < length (e # es)" and ne: "i \<noteq> j"
      show "\<not> strict_eq (get_prop ((e # es) ! i) ''_id'') (get_prop ((e # es) ! j) ''_id'')"
      proof (cases i)
        case 0
        with ne obtain j' where "j = Suc j'" by (cases j) auto
        with 0 j hd show ?thesis by simp
      next
        case (Suc i')
        show ?thesis
        proof (cases j)
          case 0
          with Suc i hd show ?thesis by (simp add: strict_eq_sym [of "get_prop (es ! i') ''_id''"])
        next
          case (Suc j')
          with \<open>i = Suc i'\<close> i j ne tl Cons.IH show ?thesis by simp
        qed
      qed
    qed
  next
    assume rhs: "\<forall>i < length (e # es). \<forall>j < length (e # es). i \<noteq> j \<longrightarrow>
        \<not> strict_eq (get_prop ((e # es) ! i) ''_id'') (get_prop ((e # es) ! j) ''_id'')"
    have hd: "\<forall>e' \<in> set es. \<not> strict_eq (get_prop e ''_id'') (get_prop e' ''_id'')"
    proof
      fix e' assume "e' \<in> set es"
      then obtain k where k: "k < length es" "es ! k = e'" by (auto simp add: in_set_conv_nth)
      from rhs [rule_format, of 0 "Suc k"] k show "\<not> strict_eq (get_prop e ''_id'') (get_prop e' ''_id'')"
        by simp
    qed
    have tl: "one_entry_per_id es"
      unfolding Cons.IH
    proof (intro allI impI)
      fix i j assume "i < length es" "j < length es" "i \<noteq> j"
      with rhs [rule_format, of "Suc i" "Suc j"]
      show "\<not> strict_eq (get_prop (es ! i) ''_id'') (get_prop (es ! j) ''_id'')" by simp
    qed
    from hd tl show "one_entry_per_id (e # es)" by (simp add: list_all_iff)
  qed
qed

lemma one_entry_per_id_append:
  assumes "one_entry_per_id ms"
    and "\<forall>e' \<in> set ms. \<not> strict_eq (get_prop e' ''_id'') (get_prop e ''_id'')"
  shows "one_entry_per_id (ms @ [e])"
  using assms by (induction ms) (simp_all add: list_all_iff)

lemma one_entry_per_id_update:
  assumes "one_entry_per_id ms" and "i < length ms"
    and "get_prop e ''_id'' = get_prop (ms ! i) ''_id''"
  shows "one_entry_per_id (ms[i := e])"
  unfolding one_entry_per_id_nth
proof (intro allI impI)
  fix a b assume a: "a < length (ms[i := e])" and b: "b < length (ms[i := e])" and ne: "a \<noteq> b"
  have ida: "get_prop (ms[i := e] ! a) ''_id'' = get_prop (ms ! a) ''_id''"
    using assms(2,3) a by (cases "a = i") simp_all
  have idb: "get_prop (ms[i := e] ! b) ''_id'' = get_prop (ms ! b) ''_id''"
    using assms(2,3) b by (cases "b = i") simp_all
  from assms(1) a b ne show "\<not> strict_eq (get_prop (ms[i := e] ! a) ''_id'') (get_prop (ms[i := e] ! b) ''_id'')"
    unfolding ida idb by (simp add: one_entry_per_id_nth)
qed

lemma get_prop_Nil: "get_prop [] k = JUndefined"
  by (simp add: get_prop_def)

lemma get_prop_spread_empty: "get_prop (spread [] old) k = get_prop old k"
  by (simp add: get_prop_spread get_prop_absent get_prop_Nil)

lemma get_prop_merged_entry:
  "get_prop (merged_entry old m) k =
     (if k = ''githubLink'' then js_or (get_prop m ''githubLink'') (get_prop old ''githubLink'')
      else if k = ''createdAt'' then js_or (get_prop m ''createdAt'') (get_prop old ''createdAt'')
      else if k = ''sender''
        then js_or (get_prop m ''sender'') (js_or (get_prop old ''sender'') unknown_sender)
      else if has_prop m k then get_prop m k
      else get_prop old k)"
  by (simp add: merged_entry_def get_prop_set_prop get_prop_spread get_prop_absent get_prop_Nil)

lemma truthy_has_prop: "js_truthy (get_prop m k) \<Longrightarrow> has_prop m k"
  by (rule ccontr) (simp add: get_prop_absent js_truthy_def)

lemma handleMessageUpdate_cases:
  "handleMessageUpdate now message prev =
     (if \<not> js_truthy message \<or> \<not> js_truthy (get_prop (props message) ''_id'') then prev
      else case findIndex (\<lambda>e. strict_eq (get_prop e ''_id'') (get_prop (props message) ''_id'')) prev of
             Some i \<Rightarrow> prev[i := merged_entry (prev ! i) (props message)]
           | None \<Rightarrow> prev @ [appended_entry now (props message)])"
  by (simp add: handleMessageUpdate_def Let_def merged_entry_def appended_entry_def
      split: option.splits)

lemma handleMessageUpdate_invariant:
  assumes "one_entry_per_id prev"
  shows "one_entry_per_id (handleMessageUpdate now message prev)"
proof (cases "\<not> js_truthy message \<or> \<not> js_truthy (get_prop (props message) ''_id'')")
  case True
  with assms show ?thesis by (simp add: handleMessageUpdate_cases)
next
  case False
  let ?m = "props message"
  let ?P = "\<lambda>e. strict_eq (get_prop e ''_id'') (get_prop ?m ''_id'')"
  from False have idt: "js_truthy (get_prop ?m ''_id'')" by simp
  show ?thesis
  proof (cases "findIndex ?P prev")
    case None
    then have "\<forall>e \<in> set prev. \<not> ?P e" by (simp add: findIndex_None)
    then have "\<forall>e \<in> set prev.
        \<not> strict_eq (get_prop e ''_id'') (get_prop (appended_entry now ?m) ''_id'')"
      by (simp add: appended_entry_def get_prop_def)
    with assms have "one_entry_per_id (prev @ [appended_entry now ?m])"
      by (rule one_entry_per_id_append)
    with False None show ?thesis by (simp add: handleMessageUpdate_cases)
  next
    case (Some i)
    from findIndex_Some [OF Some] have i: "i < length prev" and eq: "?P (prev ! i)" by simp_all
    have "get_prop (merged_entry (prev ! i) ?m) ''_id'' = get_prop ?m ''_id''"
      using truthy_has_prop [OF idt] by (simp add: get_prop_merged_entry)
    also have "\<dots> = get_prop (prev ! i) ''_id''"
      using strict_eq_eq [OF eq] by simp
    finally have "one_entry_per_id (prev[i := merged_entry (prev ! i) ?m])"
      using assms i by (intro one_entry_per_id_update)
    with False Some show ?thesis by (simp add: handleMessageUpdate_cases)
  qed
qed

lemma receive_message_invariant:
  "one_entry_per_id prev \<Longrightarrow> one_entry_per_id (receive_message now payload prev)"
  by (simp add: receive_message_def Let_def handleMessageUpdate_invariant)

lemma receive_all_invariant:
  "one_entry_per_id prev \<Longrightarrow> one_entry_per_id (receive_all evs prev)"
  by (induction evs arbitrary: prev) (auto simp add: receive_message_invariant)

lemma handleMessageUpdate_ignores:
  "\<not> js_truthy message \<or> \<not> js_truthy (get_prop (props message) ''_id'')
     \<Longrightarrow> handleMessageUpdate now message prev = prev"
  by (simp add: handleMessageUpdate_cases)

lemma handleMessageUpdate_updates:
  assumes "one_entry_per_id prev"
    and "js_truthy message" and "js_truthy (get_prop (props message) ''_id'')"
    and i: "i < length prev"
    and eq: "strict_eq (get_prop (prev ! i) ''_id'') (get_prop (props message) ''_id'')"
  shows "handleMessageUpdate now message prev = prev[i := merged_entry (prev ! i) (props message)]"
proof -
  let ?P = "\<lambda>e. strict_eq (get_prop e ''_id'') (get_prop (props message) ''_id'')"
  have others: "\<forall>j < length prev. j \<noteq> i \<longrightarrow> \<not> ?P (prev ! j)"
  proof (intro allI impI)
    fix j assume j: "j < length prev" "j \<noteq> i"
    from assms(1) j i have "\<not> strict_eq (get_prop (prev ! j) ''_id'') (get_prop (prev ! i) ''_id'')"
      by (simp add: one_entry_per_id_nth)
    then show "\<not> ?P (prev ! j)" using strict_eq_eq [OF eq] by simp
  qed
  have "findIndex ?P prev = Some i"
    using i eq others by (rule findIndex_first)
  with assms(2,3) show ?thesis
    by (simp add: handleMessageUpdate_cases)
qed

lemma handleMessageUpdate_appends:
  assumes "js_truthy message" and "js_truthy (get_prop (props message) ''_id'')"
    and "list_all (\<lambda>e. \<not> strict_eq (get_prop e ''_id'') (get_prop (props message) ''_id'')) prev"
  shows "handleMessageUpdate now message prev = prev @ [appended_entry now (props message)]"
proof -
  from assms(3)
  have "findIndex (\<lambda>e. strict_eq (get_prop e ''_id'') (get_prop (props message) ''_id'')) prev = None"
    by (simp add: findIndex_None list_all_iff)
  with assms(1,2) show ?thesis by (simp add: handleMessageUpdate_cases)
qed

lemma receive_message_cases:
  "receive_message now payload prev =
     (if payload = JUndefined \<or> payload = JNull then prev
      else if js_truthy (get_prop (props payload) ''message'')
        then handleMessageUpdate now
               (JObj [(''_id'', get_prop (props (get_prop (props payload) ''message'')) ''_id''),
                      (''content'', get_prop (props (get_prop (props payload) ''message'')) ''content''),
                      (''sender'', get_prop (props (get_prop (props payload) ''message'')) ''sender''),
                      (''createdAt'', get_prop (props (get_prop (props payload) ''message'')) ''createdAt''),
                      (''githubLink'', get_prop (props (get_prop (props payload) ''message'')) ''githubLink''),
                      (''attachments'',
                         js_or (get_prop (props (get_prop (props payload) ''message'')) ''attachments'')
                           (JArr []))])
               prev
      else handleMessageUpdate now payload prev)"
  by (simp add: receive_message_def Let_def)

lemma wrapped_not_null:
  "js_truthy (get_prop (props payload) ''message'') \<Longrightarrow> payload \<noteq> JUndefined \<and> payload \<noteq> JNull"
  by (auto simp add: props_def get_prop_def js_truthy_def)

lemma js_or_idem: "js_or (js_or a b) b = js_or a b"
  by (simp add: js_or_def)

text \<open>
  Claim C6, amended. Starting from a list with at most one entry for an id, such as a
  fetched history, every sequence of realtime events leaves at most one entry for an id.

  \<^item> A message that is falsy or has no truthy id is ignored.
  \<^item> A message whose id is in the list replaces that entry in place: a field the message
    carries overwrites, and a field it does not carry is kept, except that \<open>sender\<close>,
    \<open>createdAt\<close> and \<open>githubLink\<close> are overwritten only by a truthy value and
    keep the existing value otherwise (\<open>sender\<close> falls back to the placeholder of the
    unknown user when neither is truthy).
  \<^item> A message with a new id is appended, as an entry of its id and six fields with
    their defaults.
  \<^item> A realtime event that is \<open>null\<close> or \<open>undefined\<close> changes nothing. An
    event without a truthy field \<open>message\<close> is taken as the message itself.
  \<^item> An event that wraps the message in a field \<open>message\<close> is reduced to six
    fields before it is merged. So on an update the entry takes the \<open>content\<close> of
    the wrapped message also where it has none (\<open>undefined\<close>), takes its
    \<open>attachments\<close> or the empty array, follows the rule of the truthy value for
    \<open>sender\<close>, \<open>createdAt\<close> and \<open>githubLink\<close>, and keeps every other
    field; and the entry appended for a new id has the empty array as \<open>readBy\<close>.
\<close>

theorem handleMessageUpdate_merges_by_id:
  assumes "one_entry_per_id prev"
  shows "one_entry_per_id (receive_all evs prev)
       \<and> one_entry_per_id (handleMessageUpdate now message prev)
       \<and> (\<not> js_truthy message \<or> \<not> js_truthy (get_prop (props message) ''_id'')
          \<longrightarrow> handleMessageUpdate now message prev = prev)
       \<and> (js_truthy message \<and> js_truthy (get_prop (props message) ''_id'') \<and> i < length prev
            \<and> strict_eq (get_prop (prev ! i) ''_id'') (get_prop (props message) ''_id'')
          \<longrightarrow> (\<exists>e. handleMessageUpdate now message prev = prev[i := e]
                 \<and> (\<forall>k. get_prop e k =
                      (if k = ''githubLink''
                         then js_or (get_prop (props message) ''githubLink'')
                                (get_prop (prev ! i) ''githubLink'')
                       else if k = ''createdAt''
                         then js_or (get_prop (props message) ''createdAt'')
                                (get_prop (prev ! i) ''createdAt'')
                       else if k = ''sender''
                         then js_or (get_prop (props message) ''sender'')
                                (js_or (get_prop (prev ! i) ''sender'') unknown_sender)
                       else if has_prop (props message) k then get_prop (props message) k
                       else get_prop (prev ! i) k))))
       \<and> (js_truthy message \<and> js_truthy (get_prop (props message) ''_id'')
            \<and> list_all (\<lambda>e. \<not> strict_eq (get_prop e ''_id'') (get_prop (props message) ''_id'')) prev
          \<longrightarrow> handleMessageUpdate now message prev =
                prev @ [ [(''_id'', get_prop (props message) ''_id''),
                         (''content'', js_or (get_prop (props message) ''content'') (JStr [])),
                         (''sender'', js_or (get_prop (props message) ''sender'') unknown_sender),
                         (''createdAt'', js_or (get_prop (props message) ''createdAt'') (JDate now)),
                         (''attachments'', js_or (get_prop (props message) ''attachments'') (JArr [])),
                         (''readBy'', js_or (get_prop (props message) ''readBy'') (JArr [])),
                         (''githubLink'', get_prop (props message) ''githubLink'')] ])
       \<and> (payload = JUndefined \<or> payload = JNull \<longrightarrow> receive_message now payload prev = prev)
       \<and> (payload \<noteq> JUndefined \<and> payload \<noteq> JNull
            \<and> \<not> js_truthy (get_prop (props payload) ''message'')
          \<longrightarrow> receive_message now payload prev = handleMessageUpdate now payload prev)
       \<and> (js_truthy (get_prop (props payload) ''message'')
            \<and> \<not> js_truthy (get_prop (props (get_prop (props payload) ''message'')) ''_id'')
          \<longrightarrow> receive_message now payload prev = prev)
       \<and> (js_truthy (get_prop (props payload) ''message'')
            \<and> js_truthy (get_prop (props (get_prop (props payload) ''message'')) ''_id'')
            \<and> i < length prev
            \<and> strict_eq (get_prop (prev ! i) ''_id'')
                 (get_prop (props (get_prop (props payload) ''message'')) ''_id'')
          \<longrightarrow> (\<exists>e. receive_message now payload prev = prev[i := e]
                 \<and> (\<forall>k. get_prop e k =
                      (if k = ''githubLink''
                         then js_or (get_prop (props (get_prop (props payload) ''message'')) ''githubLink'')
                                (get_prop (prev ! i) ''githubLink'')
                       else if k = ''createdAt''
                         then js_or (get_prop (props (get_prop (props payload) ''message'')) ''createdAt'')
                                (get_prop (prev ! i) ''createdAt'')
                       else if k = ''sender''
                         then js_or (get_prop (props (get_prop (props payload) ''message'')) ''sender'')
                                (js_or (get_prop (prev ! i) ''sender'') unknown_sender)
                       else if k = ''_id''
                         then get_prop (props (get_prop (props payload) ''message'')) ''_id''
                       else if k = ''content''
                         then get_prop (props (get_prop (props payload) ''message'')) ''content''
                       else if k = ''attachments''
                         then js_or (get_prop (props (get_prop (props payload) ''message'')) ''attachments'')
                                (JArr [])
                       else get_prop (prev ! i) k))))
       \<and> (js_truthy (get_prop (props payload) ''message'')
            \<and> js_truthy (get_prop (props (get_prop (props payload) ''message'')) ''_id'')
            \<and> list_all (\<lambda>e. \<not> strict_eq (get_prop e ''_id'')
                 (get_prop (props (get_prop (props payload) ''message'')) ''_id'')) prev
          \<longrightarrow> receive_message now payload prev =
                prev @ [ [(''_id'', get_prop (props (get_prop (props payload) ''message'')) ''_id''),
                         (''content'',
                            js_or (get_prop (props (get_prop (props payload) ''message'')) ''content'')
                              (JStr [])),
                         (''sender'',
                            js_or (get_prop (props (get_prop (props payload) ''message'')) ''sender'')
                              unknown_sender),
                         (''createdAt'',
                            js_or (get_prop (props (get_prop (props payload) ''message'')) ''createdAt'')
                              (JDate now)),
                         (''attachments'',
                            js_or (get_prop (props (get_prop (props payload) ''message'')) ''attachments'')
                              (JArr [])),
                         (''readBy'', JArr []),
                         (''githubLink'',
                            get_prop (props (get_prop (props payload) ''message'')) ''githubLink'')] ])"
proof -
  let ?m = "props message"
  let ?inner = "props (get_prop (props payload) ''message'')"
  let ?six = "JObj [(''_id'', get_prop ?inner ''_id''), (''content'', get_prop ?inner ''content''),
                    (''sender'', get_prop ?inner ''sender''),
                    (''createdAt'', get_prop ?inner ''createdAt''),
                    (''githubLink'', get_prop ?inner ''githubLink''),
                    (''attachments'', js_or (get_prop ?inner ''attachments'') (JArr []))]"
  have six_truthy: "js_truthy ?six"
    by (simp add: js_truthy_def)
  have six_id: "get_prop (props ?six) ''_id'' = get_prop ?inner ''_id''"
    by (simp add: props_def get_prop_def)
  have wrapped: "receive_message now payload prev = handleMessageUpdate now ?six prev"
    if "js_truthy (get_prop (props payload) ''message'')"
    using that wrapped_not_null [OF that] by (simp add: receive_message_cases)
  have c1: "one_entry_per_id (receive_all evs prev)"
    using assms by (rule receive_all_invariant)
  have c2: "one_entry_per_id (handleMessageUpdate now message prev)"
    using assms by (rule handleMessageUpdate_invariant)
  have c3: "handleMessageUpdate now message prev = prev"
    if "\<not> js_truthy message \<or> \<not> js_truthy (get_prop ?m ''_id'')"
    using that by (rule handleMessageUpdate_ignores)
  have c4: "\<exists>e. handleMessageUpdate now message prev = prev[i := e]
                 \<and> (\<forall>k. get_prop e k =
                      (if k = ''githubLink''
                         then js_or (get_prop ?m ''githubLink'') (get_prop (prev ! i) ''githubLink'')
                       else if k = ''createdAt''
                         then js_or (get_prop ?m ''createdAt'') (get_prop (prev ! i) ''createdAt'')
                       else if k = ''sender''
                         then js_or (get_prop ?m ''sender'')
                                (js_or (get_prop (prev ! i) ''sender'') unknown_sender)
                       else if has_prop ?m k then get_prop ?m k
                       else get_prop (prev ! i) k))"
    if h: "js_truthy message \<and> js_truthy (get_prop ?m ''_id'') \<and> i < length prev
           \<and> strict_eq (get_prop (prev ! i) ''_id'') (get_prop ?m ''_id'')"
  proof -
    from h have "handleMessageUpdate now message prev = prev[i := merged_entry (prev ! i) ?m]"
      by (intro handleMessageUpdate_updates [OF assms]) simp_all
    then show ?thesis
      by (intro exI [of _ "merged_entry (prev ! i) ?m"]) (simp add: get_prop_merged_entry)
  qed
  have c5: "handleMessageUpdate now message prev = prev @ [appended_entry now ?m]"
    if h: "js_truthy message \<and> js_truthy (get_prop ?m ''_id'')
           \<and> list_all (\<lambda>e. \<not> strict_eq (get_prop e ''_id'') (get_prop ?m ''_id'')) prev"
    using h by (intro handleMessageUpdate_appends) simp_all
  have c6: "receive_message now payload prev = prev"
    if "payload = JUndefined \<or> payload = JNull"
    using that by (simp add: receive_message_cases)
  have c7: "receive_message now payload prev = handleMessageUpdate now payload prev"
    if "payload \<noteq> JUndefined \<and> payload \<noteq> JNull \<and> \<not> js_truthy (get_prop (props payload) ''message'')"
    using that by (simp add: receive_message_cases)
  have c8: "receive_message now payload prev = prev"
    if h: "js_truthy (get_prop (props payload) ''message'') \<and> \<not> js_truthy (get_prop ?inner ''_id'')"
  proof -
    from h have "receive_message now payload prev = handleMessageUpdate now ?six prev"
      by (intro wrapped) simp
    also from h have "\<dots> = prev"
      by (intro handleMessageUpdate_ignores) (simp add: six_id)
    finally show ?thesis .
  qed
  have c9: "\<exists>e. receive_message now payload prev = prev[i := e]
                 \<and> (\<forall>k. get_prop e k =
                      (if k = ''githubLink''
                         then js_or (get_prop ?inner ''githubLink'') (get_prop (prev ! i) ''githubLink'')
                       else if k = ''createdAt''
                         then js_or (get_prop ?inner ''createdAt'') (get_prop (prev ! i) ''createdAt'')
                       else if k = ''sender''
                         then js_or (get_prop ?inner ''sender'')
                                (js_or (get_prop (prev ! i) ''sender'') unknown_sender)
                       else if k = ''_id'' then get_prop ?inner ''_id''
                       else if k = ''content'' then get_prop ?inner ''content''
                       else if k = ''attachments''
                         then js_or (get_prop ?inner ''attachments'') (JArr [])
                       else get_prop (prev ! i) k))"
    if h: "js_truthy (get_prop (props payload) ''message'') \<and> js_truthy (get_prop ?inner ''_id'')
           \<and> i < length prev \<and> strict_eq (get_prop (prev ! i) ''_id'') (get_prop ?inner ''_id'')"
  proof -
    from h have "receive_message now payload prev = handleMessageUpdate now ?six prev"
      by (intro wrapped) simp
    also from h have "\<dots> = prev[i := merged_entry (prev ! i) (props ?six)]"
      by (intro handleMessageUpdate_updates [OF assms six_truthy]) (simp_all add: six_id)
    finally have "receive_message now payload prev = prev[i := merged_entry (prev ! i) (props ?six)]" .
    then show ?thesis
      by (intro exI [of _ "merged_entry (prev ! i) (props ?six)"])
        (simp add: get_prop_merged_entry props_def get_prop_def [of "_ # _"] has_prop_def)
  qed
  have c10: "receive_message now payload prev = prev @ [appended_entry now (props ?six)]"
    if h: "js_truthy (get_prop (props payload) ''message'') \<and> js_truthy (get_prop ?inner ''_id'')
           \<and> list_all (\<lambda>e. \<not> strict_eq (get_prop e ''_id'') (get_prop ?inner ''_id'')) prev"
  proof -
    from h have "receive_message now payload prev = handleMessageUpdate now ?six prev"
      by (intro wrapped) simp
    also from h have "\<dots> = prev @ [appended_entry now (props ?six)]"
      by (intro handleMessageUpdate_appends [OF six_truthy]) (simp_all add: six_id)
    finally show ?thesis .
  qed
  have six_entry: "appended_entry now (props ?six) =
        [(''_id'', get_prop ?inner ''_id''),
         (''content'', js_or (get_prop ?inner ''content'') (JStr [])),
         (''sender'', js_or (get_prop ?inner ''sender'') unknown_sender),
         (''createdAt'', js_or (get_prop ?inner ''createdAt'') (JDate now)),
         (''attachments'', js_or (get_prop ?inner ''attachments'') (JArr [])),
         (''readBy'', JArr []),
         (''githubLink'', get_prop ?inner ''githubLink'')]"
    by (simp add: appended_entry_def props_def get_prop_def [of "_ # _"] js_or_idem)
      (simp add: js_or_def js_truthy_def)
  note c5' = c5 [unfolded appended_entry_def]
  note c10' = c10 [unfolded six_entry]
  show ?thesis
    by (intro conjI impI; (rule c1 c2 | (rule c3 c4 c5' c6 c7 c8 c9 c10', assumption)))
qed


theorem reconciliation_witness:
  "one_entry_per_id example_history
   \<and> one_entry_per_id
        (receive_all
           [(5, JObj [(''message'', JObj [(''_id'', JStr ''m1''), (''content'', JStr ''hi'')])]),
            (6, JObj [(''_id'', JStr ''m2''), (''content'', JStr ''yo'')])]
           example_history)
   \<and> handleMessageUpdate 5 (JObj [(''content'', JStr ''no id'')]) example_history = example_history
   \<and> map (\<lambda>e. map (get_prop e)
               [''_id'', ''content'', ''sender'', ''createdAt'', ''githubLink'', ''attachments''])
        (handleMessageUpdate 5 (JObj [(''_id'', JStr ''m1''), (''content'', JStr ''hi there'')])
           example_history) =
       [ [JStr ''m1'', JStr ''hi there'', JStr ''alice'', JStr ''2024-05-01T10:00:00Z'',
         JStr ''https://github.com/a/b'', JArr []] ]
   \<and> handleMessageUpdate 5 (JObj [(''_id'', JStr ''m2''), (''content'', JStr ''yo'')])
        example_history =
       example_history @
       [ [(''_id'', JStr ''m2''), (''content'', JStr ''yo''), (''sender'', unknown_sender),
         (''createdAt'', JDate 5), (''attachments'', JArr []), (''readBy'', JArr []),
         (''githubLink'', JUndefined)] ]
   \<and> receive_message 5 JNull example_history = example_history
   \<and> receive_message 5 (JObj [(''_id'', JStr ''m2''), (''content'', JStr ''yo'')]) example_history =
       handleMessageUpdate 5 (JObj [(''_id'', JStr ''m2''), (''content'', JStr ''yo'')]) example_history
   \<and> receive_message 5 (JObj [(''message'', JObj [(''content'', JStr ''no id'')])]) example_history =
       example_history
   \<and> map (\<lambda>e. map (get_prop e)
               [''_id'', ''content'', ''sender'', ''createdAt'', ''githubLink'', ''attachments''])
        (receive_message 5
           (JObj [(''message'', JObj [(''_id'', JStr ''m1''), (''content'', JStr ''hi again''),
                                      (''readBy'', JArr [JStr ''bob''])])])
           example_history) =
       [ [JStr ''m1'', JStr ''hi again'', JStr ''alice'', JStr ''2024-05-01T10:00:00Z'',
         JStr ''https://github.com/a/b'', JArr []] ]
   \<and> receive_message 5
        (JObj [(''message'', JObj [(''_id'', JStr ''m3''), (''content'', JStr ''new''),
                                   (''readBy'', JArr [JStr ''bob''])])])
        example_history =
       example_history @
       [ [(''_id'', JStr ''m3''), (''content'', JStr ''new''), (''sender'', unknown_sender),
         (''createdAt'', JDate 5), (''attachments'', JArr []), (''readBy'', JArr []),
         (''githubLink'', JUndefined)] ]"
proof -
  have ok: "one_entry_per_id example_history"
    by (simp add: example_history_def)
  note ev = get_prop_def props_def js_or_def js_truthy_def strict_eq_def example_history_def
  note t1 = handleMessageUpdate_merges_by_id [OF ok,
      of "[(5, JObj [(''message'', JObj [(''_id'', JStr ''m1''), (''content'', JStr ''hi'')])]),
           (6, JObj [(''_id'', JStr ''m2''), (''content'', JStr ''yo'')])]"
         5 "JObj [(''_id'', JStr ''m2''), (''content'', JStr ''yo'')]" 0
         "JObj [(''message'', JObj [(''_id'', JStr ''m1''), (''content'', JStr ''hi again''),
                                    (''readBy'', JArr [JStr ''bob''])])]"]
  note t2 = handleMessageUpdate_merges_by_id [OF ok,
      of "[]" 5 "JObj [(''content'', JStr ''no id'')]" 0 JNull]
  note t3 = handleMessageUpdate_merges_by_id [OF ok,
      of "[]" 5 "JObj [(''_id'', JStr ''m1''), (''content'', JStr ''hi there'')]" 0
         "JObj [(''_id'', JStr ''m2''), (''content'', JStr ''yo'')]"]
  note t4 = handleMessageUpdate_merges_by_id [OF ok,
      of "[]" 5 JNull 0 "JObj [(''message'', JObj [(''content'', JStr ''no id'')])]"]
  note t5 = handleMessageUpdate_merges_by_id [OF ok,
      of "[]" 5 JNull 0
         "JObj [(''message'', JObj [(''_id'', JStr ''m3''), (''content'', JStr ''new''),
                                    (''readBy'', JArr [JStr ''bob''])])]"]
  from t1 have seq: "one_entry_per_id
        (receive_all
           [(5, JObj [(''message'', JObj [(''_id'', JStr ''m1''), (''content'', JStr ''hi'')])]),
            (6, JObj [(''_id'', JStr ''m2''), (''content'', JStr ''yo'')])]
           example_history)"
    by (rule conjunct1)
  have noid: "handleMessageUpdate 5 (JObj [(''content'', JStr ''no id'')]) example_history
      = example_history"
    using t2 [THEN conjunct2, THEN conjunct2, THEN conjunct1] by (simp add: ev)
  have h3: "js_truthy (JObj [(''_id'', JStr ''m1''), (''content'', JStr ''hi there'')])
      \<and> js_truthy (get_prop (props (JObj [(''_id'', JStr ''m1''), (''content'', JStr ''hi there'')])) ''_id'')
      \<and> 0 < length example_history
      \<and> strict_eq (get_prop (example_history ! 0) ''_id'')
           (get_prop (props (JObj [(''_id'', JStr ''m1''), (''content'', JStr ''hi there'')])) ''_id'')"
    by (simp add: ev)
  have upd: "map (\<lambda>e. map (get_prop e)
               [''_id'', ''content'', ''sender'', ''createdAt'', ''githubLink'', ''attachments''])
        (handleMessageUpdate 5 (JObj [(''_id'', JStr ''m1''), (''content'', JStr ''hi there'')])
           example_history) =
       [ [JStr ''m1'', JStr ''hi there'', JStr ''alice'', JStr ''2024-05-01T10:00:00Z'',
         JStr ''https://github.com/a/b'', JArr []] ]"
    using t3 [THEN conjunct2, THEN conjunct2, THEN conjunct2, THEN conjunct1, THEN mp, OF h3]
    by (elim exE conjE)
      (simp add: example_history_def props_def js_or_def js_truthy_def get_prop_Nil
        get_prop_def [of "_ # _"] has_prop_def [of "_ # _"])
  have app: "handleMessageUpdate 5 (JObj [(''_id'', JStr ''m2''), (''content'', JStr ''yo'')])
        example_history =
       example_history @
       [ [(''_id'', JStr ''m2''), (''content'', JStr ''yo''), (''sender'', unknown_sender),
         (''createdAt'', JDate 5), (''attachments'', JArr []), (''readBy'', JArr []),
         (''githubLink'', JUndefined)] ]"
    using t1 [THEN conjunct2, THEN conjunct2, THEN conjunct2, THEN conjunct2, THEN conjunct1]
    by (simp add: get_prop_def props_def js_or_def js_truthy_def strict_eq_def)
      (simp add: example_history_def get_prop_def strict_eq_def)
  have null: "receive_message 5 JNull example_history = example_history"
    using t2 [THEN conjunct2, THEN conjunct2, THEN conjunct2, THEN conjunct2, THEN conjunct2,
        THEN conjunct1]
    by simp
  have bare: "receive_message 5 (JObj [(''_id'', JStr ''m2''), (''content'', JStr ''yo'')])
        example_history =
       handleMessageUpdate 5 (JObj [(''_id'', JStr ''m2''), (''content'', JStr ''yo'')])
        example_history"
    using t3 [THEN conjunct2, THEN conjunct2, THEN conjunct2, THEN conjunct2, THEN conjunct2,
        THEN conjunct2, THEN conjunct1]
    by (simp add: get_prop_def props_def js_truthy_def)
  have wnoid: "receive_message 5 (JObj [(''message'', JObj [(''content'', JStr ''no id'')])])
        example_history = example_history"
    using t4 [THEN conjunct2, THEN conjunct2, THEN conjunct2, THEN conjunct2, THEN conjunct2,
        THEN conjunct2, THEN conjunct2, THEN conjunct1]
    by (simp add: get_prop_def props_def js_truthy_def)
  have h1: "js_truthy (get_prop (props (JObj [(''message'', JObj [(''_id'', JStr ''m1''),
                   (''content'', JStr ''hi again''), (''readBy'', JArr [JStr ''bob''])])])) ''message'')
      \<and> js_truthy (get_prop (props (get_prop (props (JObj [(''message'', JObj [(''_id'', JStr ''m1''),
                   (''content'', JStr ''hi again''), (''readBy'', JArr [JStr ''bob''])])])) ''message''))
             ''_id'')
      \<and> 0 < length example_history
      \<and> strict_eq (get_prop (example_history ! 0) ''_id'')
           (get_prop (props (get_prop (props (JObj [(''message'', JObj [(''_id'', JStr ''m1''),
                   (''content'', JStr ''hi again''), (''readBy'', JArr [JStr ''bob''])])])) ''message''))
             ''_id'')"
    by (simp add: ev)
  have wupd: "map (\<lambda>e. map (get_prop e)
               [''_id'', ''content'', ''sender'', ''createdAt'', ''githubLink'', ''attachments''])
        (receive_message 5
           (JObj [(''message'', JObj [(''_id'', JStr ''m1''), (''content'', JStr ''hi again''),
                                      (''readBy'', JArr [JStr ''bob''])])])
           example_history) =
       [ [JStr ''m1'', JStr ''hi again'', JStr ''alice'', JStr ''2024-05-01T10:00:00Z'',
         JStr ''https://github.com/a/b'', JArr []] ]"
    using t1 [THEN conjunct2, THEN conjunct2, THEN conjunct2, THEN conjunct2, THEN conjunct2,
        THEN conjunct2, THEN conjunct2, THEN conjunct2, THEN conjunct1, THEN mp, OF h1]
    by (elim exE conjE)
      (simp add: example_history_def props_def js_or_def js_truthy_def get_prop_Nil
        get_prop_def [of "_ # _"])
  have wapp: "receive_message 5
        (JObj [(''message'', JObj [(''_id'', JStr ''m3''), (''content'', JStr ''new''),
                                   (''readBy'', JArr [JStr ''bob''])])])
        example_history =
       example_history @
       [ [(''_id'', JStr ''m3''), (''content'', JStr ''new''), (''sender'', unknown_sender),
         (''createdAt'', JDate 5), (''attachments'', JArr []), (''readBy'', JArr []),
         (''githubLink'', JUndefined)] ]"
    using t5 [THEN conjunct2, THEN conjunct2, THEN conjunct2, THEN conjunct2, THEN conjunct2,
        THEN conjunct2, THEN conjunct2, THEN conjunct2, THEN conjunct2]
    by (simp add: get_prop_def props_def js_or_def js_truthy_def strict_eq_def)
      (simp add: example_history_def get_prop_def strict_eq_def)
  from ok seq noid upd app null bare wnoid wupd wapp show ?thesis
    by (intro conjI)
qed

text \<open>
  The entry of \<open>m1\<close> has a link and a content. An incoming message for \<open>m1\<close> on
  which \<open>githubLink\<close> is present, with the empty string, does not overwrite the link.
  A wrapped realtime event for \<open>m1\<close> that has no \<open>content\<close> does not preserve the
  content: the entry is left with \<open>undefined\<close>.
\<close>

theorem present_field_not_overwritten_counterexample:
  "has_prop [(''_id'', JStr ''m1''), (''githubLink'', JStr [])] ''githubLink''
   \<and> get_prop [(''_id'', JStr ''m1''), (''githubLink'', JStr [])] ''githubLink'' = JStr []
   \<and> map (\<lambda>e. get_prop e ''githubLink'') example_history = [JStr ''https://github.com/a/b'']
   \<and> map (\<lambda>e. get_prop e ''githubLink'')
        (handleMessageUpdate 5 (JObj [(''_id'', JStr ''m1''), (''githubLink'', JStr [])])
           example_history) = [JStr ''https://github.com/a/b'']
   \<and> \<not> has_prop [(''_id'', JStr ''m1'')] ''content''
   \<and> map (\<lambda>e. get_prop e ''content'') example_history = [JStr ''hi'']
   \<and> map (\<lambda>e. get_prop e ''content'')
        (receive_message 5 (JObj [(''message'', JObj [(''_id'', JStr ''m1'')])]) example_history)
       = [JUndefined]"
  by code_simp

end
